theory Spec2Isabelle
  imports Complex_Main
begin

section \<open>The provider adapter of \<^verbatim>\<open>src/app/api/analyze/route.ts\<close>\<close>

text \<open>
  The route handler forwards an image and an optional context string to one of three
  inference services. This theory embeds the handler function by function:
  \<^verbatim>\<open>getApiEndpoint\<close>, the three request builders, \<^verbatim>\<open>analyzeBloodTest\<close> and \<^verbatim>\<open>POST\<close>.

  \<^item> JavaScript values are the datatype \<open>jsval\<close>; \<^verbatim>\<open>undefined\<close> is a value of its own.
  \<^item> An optional string (\<^verbatim>\<open>string | undefined\<close>, or \<^verbatim>\<open>string | null\<close> for a header) is a
    \<open>string option\<close>; its truthiness is \<open>truthy\<close>.
  \<^item> Every \<^verbatim>\<open>throw\<close> is the left injection of a sum; the \<^verbatim>\<open>try/catch\<close> of
    \<^verbatim>\<open>analyzeBloodTest\<close> turns it into the tagged failure.
  \<^item> The outside world is the record \<open>runtime\<close>: the environment variable, the transport
    behind \<^verbatim>\<open>fetch\<close> and the clock. The network calls made are returned as a list, in order.
  \<^item> A JSON text is modelled by the tree it denotes, on the way out
    (\<^verbatim>\<open>JSON.stringify\<close>, which drops \<^verbatim>\<open>undefined\<close> members) and on the way in
    (\<^verbatim>\<open>response.json()\<close>, whose parser is part of the transport).
\<close>

subsection \<open>Values\<close>

datatype jsval =
    JUndefined
  | JNull
  | JBool bool
  | JNum rat
  | JStr string
  | JArr "jsval list"
  | JObj "(string \<times> jsval) list"

text \<open>
  What the handler can throw or catch. \<open>Error m\<close> is \<^verbatim>\<open>new Error(m)\<close>, raised by the
  handler itself; its message is \<open>m\<close>. The other three are raised by the platform, and
  their message text is the platform's: reading a property of \<^verbatim>\<open>undefined\<close> or
  \<^verbatim>\<open>null\<close> (the base value and the property read), a rejected \<^verbatim>\<open>fetch\<close>, and a
  body that is not JSON.
\<close>

datatype js_error =
    Error string
  | TypeError_read jsval string
  | FetchRejected string
  | JsonSyntaxError string

fun truthy :: "string option \<Rightarrow> bool" where
  "truthy None = False"
| "truthy (Some s) = (s \<noteq> [])"

fun str_value :: "string option \<Rightarrow> jsval" where
  "str_value None = JUndefined"
| "str_value (Some s) = JStr s"

subsection \<open>String and array primitives\<close>

text \<open>\<^verbatim>\<open>s.split(c)\<close> for a separator of one character: never an empty array.\<close>

fun js_split :: "char \<Rightarrow> string \<Rightarrow> string list" where
  "js_split c [] = [[]]"
| "js_split c (x # xs) =
     (if x = c then [] # js_split c xs
      else (case js_split c xs of
              [] \<Rightarrow> [[x]]
            | p # ps \<Rightarrow> (x # p) # ps))"

text \<open>\<^verbatim>\<open>xs[i]\<close> on an array: \<^verbatim>\<open>undefined\<close> out of range.\<close>

definition element_at :: "'a list \<Rightarrow> nat \<Rightarrow> 'a option" where
  "element_at xs i = (if i < length xs then Some (xs ! i) else None)"

text \<open>A non-negative integer in a template literal: its decimal digits.\<close>

definition digit_char :: "nat \<Rightarrow> char" where
  "digit_char d = char_of (48 + d)"

function show_nat :: "nat \<Rightarrow> string" where
  "show_nat n =
     (if n < 10 then [digit_char n]
      else show_nat (n div 10) @ [digit_char (n mod 10)])"
  by pat_completeness auto
termination
  by (relation "measure id") auto

declare show_nat.simps [simp del]

subsection \<open>\<^verbatim>\<open>JSON.stringify\<close>\<close>

text \<open>
  The serialised text is represented by the JSON tree it denotes: a member whose value is
  \<^verbatim>\<open>undefined\<close> is left out, an \<^verbatim>\<open>undefined\<close> array element becomes \<^verbatim>\<open>null\<close>, and
  \<^verbatim>\<open>JSON.stringify(undefined)\<close> is \<^verbatim>\<open>undefined\<close>.
\<close>

fun stringify_value :: "jsval \<Rightarrow> jsval"
  and stringify_elements :: "jsval list \<Rightarrow> jsval list"
  and stringify_members :: "(string \<times> jsval) list \<Rightarrow> (string \<times> jsval) list" where
  "stringify_value (JArr xs) = JArr (stringify_elements xs)"
| "stringify_value (JObj kvs) = JObj (stringify_members kvs)"
| "stringify_value JUndefined = JUndefined"
| "stringify_value JNull = JNull"
| "stringify_value (JBool b) = JBool b"
| "stringify_value (JNum n) = JNum n"
| "stringify_value (JStr s) = JStr s"
| "stringify_elements [] = []"
| "stringify_elements (x # xs) =
     (if x = JUndefined then JNull else stringify_value x) # stringify_elements xs"
| "stringify_members [] = []"
| "stringify_members ((k, v) # kvs) =
     (if v = JUndefined then stringify_members kvs
      else (k, stringify_value v) # stringify_members kvs)"

definition JSON_stringify :: "jsval \<Rightarrow> jsval option" where
  "JSON_stringify v = (if v = JUndefined then None else Some (stringify_value v))"

subsection \<open>Reading a reply\<close>

text \<open>
  \<^verbatim>\<open>v.name\<close> and \<^verbatim>\<open>v[i]\<close>. Reading from \<^verbatim>\<open>undefined\<close> or \<^verbatim>\<open>null\<close> throws a
  TypeError; a missing property or index reads as \<^verbatim>\<open>undefined\<close>. The names the handler
  reads (candidates, content, parts, text, choices, message) are on no prototype, so on an
  array, a string, a number or a boolean they read as \<^verbatim>\<open>undefined\<close>.
\<close>

datatype step = Prop string | Index nat

fun lookup_member :: "(string \<times> jsval) list \<Rightarrow> string \<Rightarrow> jsval" where
  "lookup_member kvs k = (case map_of kvs k of None \<Rightarrow> JUndefined | Some v \<Rightarrow> v)"

fun read_step :: "jsval \<Rightarrow> step \<Rightarrow> js_error + jsval" where
  "read_step JUndefined (Prop k) = Inl (TypeError_read JUndefined k)"
| "read_step JUndefined (Index i) = Inl (TypeError_read JUndefined (show_nat i))"
| "read_step JNull (Prop k) = Inl (TypeError_read JNull k)"
| "read_step JNull (Index i) = Inl (TypeError_read JNull (show_nat i))"
| "read_step (JObj kvs) (Prop k) = Inr (lookup_member kvs k)"
| "read_step (JObj kvs) (Index i) = Inr (lookup_member kvs (show_nat i))"
| "read_step (JArr xs) (Index i) = Inr (case element_at xs i of None \<Rightarrow> JUndefined | Some v \<Rightarrow> v)"
| "read_step (JStr s) (Index i) = Inr (case element_at s i of None \<Rightarrow> JUndefined | Some c \<Rightarrow> JStr [c])"
| "read_step (JArr xs) (Prop k) = Inr JUndefined"
| "read_step (JStr s) (Prop k) = Inr JUndefined"
| "read_step (JBool b) st = Inr JUndefined"
| "read_step (JNum n) st = Inr JUndefined"

fun read_path :: "jsval \<Rightarrow> step list \<Rightarrow> js_error + jsval" where
  "read_path v [] = Inr v"
| "read_path v (st # sts) =
     (case read_step v st of
        Inl e \<Rightarrow> Inl e
      | Inr v' \<Rightarrow> read_path v' sts)"

subsection \<open>Requests, replies and the outside world\<close>

record RequestInit =
  http_method :: string
  headers :: "(string \<times> string) list"
  body :: "jsval option"

record fetchConfig =
  url :: string
  options :: RequestInit

text \<open>
  A reply of the transport: its status, the body as \<^verbatim>\<open>response.text()\<close> gives it and as
  \<^verbatim>\<open>response.json()\<close> parses it. \<^verbatim>\<open>response.ok\<close> is the status range 200 to 299.
\<close>

record Response =
  status :: nat
  body_text :: string
  body_json :: "js_error + jsval"

definition ok :: "Response \<Rightarrow> bool" where
  "ok r = (200 \<le> status r \<and> status r \<le> 299)"

record runtime =
  GOOGLE_GEMINI_API_KEY :: "string option"
  fetch :: "fetchConfig \<Rightarrow> js_error + Response"
  Date_now :: nat

record AnalysisResult =
  resultText :: jsval
  provider :: string
  timestamp :: nat

record AnalysisRequest =
  imageBase64 :: "string option"
  contextText :: "string option"
  provider :: string

text \<open>
  The provider of a request is a string: the type \<^verbatim>\<open>LLMProvider\<close> is erased at run time
  and the request is a cast of whatever JSON the caller sent.
\<close>

datatype outcome = Success AnalysisResult | Failure js_error

subsection \<open>The prompt and the endpoints\<close>

definition ANALYSIS_PROMPT :: string where
  "ANALYSIS_PROMPT =
     ''\<newline>You are a medical expert analyzing a blood test result. \<newline>'' @
     ''Examine the image of the blood test results and provide a detailed analysis including:\<newline>'' @
     ''\<newline>'' @
     ''1. A summary of the test results\<newline>'' @
     ''2. Identification of any abnormal values and their significance\<newline>'' @
     ''3. Potential health implications based on these results\<newline>'' @
     ''4. General recommendations (NOT medical advice)\<newline>'' @
     ''\<newline>'' @
     ''Present this information in a clear, organized format.\<newline>''"

definition getApiEndpoint :: "string \<Rightarrow> js_error + string" where
  "getApiEndpoint p =
     (if p = ''gemini'' then
        Inr ''https://generativelanguage.googleapis.com/v1beta/models/gemini-1.5-flash:generateContent''
      else if p = ''openai'' then Inr ''https://api.openai.com/v1/chat/completions''
      else if p = ''claude'' then Inr ''https://api.anthropic.com/v1/messages''
      else Inl (Error (''Unsupported provider: '' @ p)))"

subsection \<open>The three request builders\<close>

text \<open>
  The arguments are those of the source, in its order; \<^verbatim>\<open>prepareGeminiRequest\<close> takes in
  front the value of \<^verbatim>\<open>process.env.GOOGLE_GEMINI_API_KEY\<close>, which the source reads from the
  environment. A falsy key is an absent or an empty one. In the Claude builder the first
  piece of \<^verbatim>\<open>split(';')\<close> always exists; the branch for its absence is kept, as the read
  that would throw.
\<close>

definition prepareGeminiRequest ::
  "string option \<Rightarrow> string \<Rightarrow> string option \<Rightarrow> string option \<Rightarrow> js_error + fetchConfig" where
  "prepareGeminiRequest env_key img context apiKey =
     (let apiKeyToUse = (if truthy apiKey then apiKey else env_key) in
      case apiKeyToUse of
        None \<Rightarrow> Inl (Error ''No Gemini API key provided'')
      | Some key \<Rightarrow>
          if key = [] then Inl (Error ''No Gemini API key provided'')
          else
            let base64Data = element_at (js_split CHR '','' img) 1;
                prompt = (case context of
                            None \<Rightarrow> ANALYSIS_PROMPT
                          | Some c \<Rightarrow>
                              if c = [] then ANALYSIS_PROMPT
                              else ANALYSIS_PROMPT @ ''\<newline>\<newline>Additional context provided by user: '' @ c)
            in case getApiEndpoint ''gemini'' of
                 Inl e \<Rightarrow> Inl e
               | Inr endpoint \<Rightarrow>
                   Inr \<lparr>url = endpoint @ ''?key='' @ key,
                        options = \<lparr>
                          http_method = ''POST'',
                          headers = [(''Content-Type'', ''application/json'')],
                          body = JSON_stringify (JObj [
                            (''contents'', JArr [
                               JObj [(''parts'', JArr [
                                  JObj [(''text'', JStr prompt)],
                                  JObj [(''inline_data'', JObj [
                                     (''mime_type'', JStr ''image/jpeg''),
                                     (''data'', str_value base64Data)])]])]]),
                            (''generationConfig'', JObj [
                               (''temperature'', JNum 0.1),
                               (''maxOutputTokens'', JNum 2048)])])\<rparr>\<rparr>)"

definition prepareOpenAIRequest ::
  "string \<Rightarrow> string option \<Rightarrow> string option \<Rightarrow> js_error + fetchConfig" where
  "prepareOpenAIRequest img context apiKey =
     (case apiKey of
        None \<Rightarrow> Inl (Error ''No OpenAI API key provided'')
      | Some key \<Rightarrow>
          if key = [] then Inl (Error ''No OpenAI API key provided'')
          else
            let prompt = (case context of
                            None \<Rightarrow> ANALYSIS_PROMPT
                          | Some c \<Rightarrow>
                              if c = [] then ANALYSIS_PROMPT
                              else ANALYSIS_PROMPT @ ''\<newline>\<newline>Additional context provided by user: '' @ c)
            in case getApiEndpoint ''openai'' of
                 Inl e \<Rightarrow> Inl e
               | Inr endpoint \<Rightarrow>
                   Inr \<lparr>url = endpoint,
                        options = \<lparr>
                          http_method = ''POST'',
                          headers = [(''Content-Type'', ''application/json''),
                                     (''Authorization'', ''Bearer '' @ key)],
                          body = JSON_stringify (JObj [
                            (''model'', JStr ''gpt-4-vision-preview''),
                            (''messages'', JArr [
                               JObj [(''role'', JStr ''user''),
                                     (''content'', JArr [
                                        JObj [(''type'', JStr ''text''), (''text'', JStr prompt)],
                                        JObj [(''type'', JStr ''image_url''),
                                              (''image_url'', JObj [(''url'', JStr img)])]])]]),
                            (''max_tokens'', JNum 2048),
                            (''temperature'', JNum 0.1)])\<rparr>\<rparr>)"

definition prepareClaudeRequest ::
  "string \<Rightarrow> string option \<Rightarrow> string option \<Rightarrow> js_error + fetchConfig" where
  "prepareClaudeRequest img context apiKey =
     (case apiKey of
        None \<Rightarrow> Inl (Error ''No Claude API key provided'')
      | Some key \<Rightarrow>
          if key = [] then Inl (Error ''No Claude API key provided'')
          else
            let base64Data = element_at (js_split CHR '','' img) 1 in
            case element_at (js_split CHR '';'' img) 0 of
              None \<Rightarrow> Inl (TypeError_read JUndefined ''split'')
            | Some before_semicolon \<Rightarrow>
                let mimeType = element_at (js_split CHR '':'' before_semicolon) 1;
                    prompt = (case context of
                                None \<Rightarrow> ANALYSIS_PROMPT
                              | Some c \<Rightarrow>
                                  if c = [] then ANALYSIS_PROMPT
                                  else ANALYSIS_PROMPT @ ''\<newline>\<newline>Additional context provided by user: '' @ c)
                in case getApiEndpoint ''claude'' of
                     Inl e \<Rightarrow> Inl e
                   | Inr endpoint \<Rightarrow>
                       Inr \<lparr>url = endpoint,
                            options = \<lparr>
                              http_method = ''POST'',
                              headers = [(''Content-Type'', ''application/json''),
                                         (''x-api-key'', key),
                                         (''anthropic-version'', ''2023-06-01'')],
                              body = JSON_stringify (JObj [
                                (''model'', JStr ''claude-3-opus-20240229''),
                                (''max_tokens'', JNum 2048),
                                (''temperature'', JNum 0.1),
                                (''messages'', JArr [
                                   JObj [(''role'', JStr ''user''),
                                         (''content'', JArr [
                                            JObj [(''type'', JStr ''text''),
                                                  (''text'', JStr prompt)],
                                            JObj [(''type'', JStr ''image''),
                                                  (''source'', JObj [
                                                     (''type'', JStr ''base64''),
                                                     (''media_type'', str_value mimeType),
                                                     (''data'', str_value base64Data)])]])]])])\<rparr>\<rparr>)"

subsection \<open>\<^verbatim>\<open>analyzeBloodTest\<close>\<close>

text \<open>
  The result is the tagged value the function returns and the list of requests handed to
  \<^verbatim>\<open>fetch\<close> on the way. Every \<open>Inl\<close> below is a throw inside the \<^verbatim>\<open>try\<close> block, caught
  and returned as \<open>Failure\<close>. The second \<^verbatim>\<open>switch\<close> has no default: \<^verbatim>\<open>resultText\<close>
  keeps its initial value, the empty string.
\<close>

definition analyzeBloodTest ::
  "runtime \<Rightarrow> AnalysisRequest \<Rightarrow> string option \<Rightarrow> outcome \<times> fetchConfig list" where
  "analyzeBloodTest rt request userApiKey =
     (case imageBase64 request of
        None \<Rightarrow> (Failure (Error ''No image provided''), [])
      | Some img \<Rightarrow>
          if img = [] then (Failure (Error ''No image provided''), [])
          else
            case (if AnalysisRequest.provider request = ''gemini'' then
                    prepareGeminiRequest (GOOGLE_GEMINI_API_KEY rt) img (contextText request)
                      userApiKey
                  else if AnalysisRequest.provider request = ''openai'' then
                    prepareOpenAIRequest img (contextText request) userApiKey
                  else if AnalysisRequest.provider request = ''claude'' then
                    prepareClaudeRequest img (contextText request) userApiKey
                  else Inl (Error (''Unsupported provider: ''
                                   @ AnalysisRequest.provider request))) of
              Inl e \<Rightarrow> (Failure e, [])
            | Inr cfg \<Rightarrow>
                (case fetch rt cfg of
                   Inl e \<Rightarrow> (Failure e, [cfg])
                 | Inr response \<Rightarrow>
                     if \<not> ok response then
                       (Failure (Error (''API Error ('' @ show_nat (status response) @ ''): ''
                                        @ body_text response)),
                        [cfg])
                     else
                       case body_json response of
                         Inl e \<Rightarrow> (Failure e, [cfg])
                       | Inr data \<Rightarrow>
                           (case (if AnalysisRequest.provider request = ''gemini'' then
                                    read_path data [Prop ''candidates'', Index 0, Prop ''content'',
                                                    Prop ''parts'', Index 0, Prop ''text'']
                                  else if AnalysisRequest.provider request = ''openai'' then
                                    read_path data [Prop ''choices'', Index 0, Prop ''message'',
                                                    Prop ''content'']
                                  else if AnalysisRequest.provider request = ''claude'' then
                                    read_path data [Prop ''content'', Index 0, Prop ''text'']
                                  else Inr (JStr [])) of
                              Inl e \<Rightarrow> (Failure e, [cfg])
                            | Inr txt \<Rightarrow>
                                (Success \<lparr>resultText = txt,
                                          AnalysisResult.provider = AnalysisRequest.provider request,
                                          timestamp = Date_now rt\<rparr>,
                                 [cfg]))))"

subsection \<open>\<^verbatim>\<open>POST\<close>\<close>

text \<open>
  The incoming request: what \<^verbatim>\<open>request.json()\<close> gives (or throws) and the header lookup
  \<^verbatim>\<open>request.headers.get\<close>. The answer is the JSON payload and the status of
  \<^verbatim>\<open>NextResponse.json\<close> (200 when no status is given).
\<close>

record NextRequest =
  request_json :: "js_error + AnalysisRequest"
  headers_get :: "string \<Rightarrow> string option"

datatype payload = ErrorPayload js_error | ResultPayload outcome

record NextResponse =
  response_json :: payload
  response_status :: nat

definition POST :: "runtime \<Rightarrow> NextRequest \<Rightarrow> NextResponse \<times> fetchConfig list" where
  "POST rt request =
     (case request_json request of
        Inl e \<Rightarrow> (\<lparr>response_json = ErrorPayload e, response_status = 500\<rparr>, [])
      | Inr requestData \<Rightarrow>
          let userApiKey =
                (if AnalysisRequest.provider requestData = ''gemini'' then
                   headers_get request ''x-gemini-key''
                 else if AnalysisRequest.provider requestData = ''openai'' then
                   headers_get request ''x-openai-key''
                 else headers_get request ''x-claude-key'');
              (result, calls) =
                analyzeBloodTest rt requestData (if truthy userApiKey then userApiKey else None)
          in case result of
               Failure e \<Rightarrow> (\<lparr>response_json = ErrorPayload e, response_status = 400\<rparr>, calls)
             | Success r \<Rightarrow> (\<lparr>response_json = ResultPayload result, response_status = 200\<rparr>, calls))"

subsection \<open>Notions used to state the properties\<close>

text \<open>
  An image as the page sends it: \<^verbatim>\<open>data:<mime>;base64,<payload>\<close>. It is well formed when
  the MIME type contains none of the three separators the builders split at and the payload
  contains no comma, as is the case of every MIME type and of every base64 text.
\<close>

definition data_uri :: "string \<Rightarrow> string \<Rightarrow> string" where
  "data_uri mime payload = ''data:'' @ mime @ '';base64,'' @ payload"

definition well_formed_data_uri :: "string \<Rightarrow> string \<Rightarrow> bool" where
  "well_formed_data_uri mime payload =
     (CHR '','' \<notin> set payload \<and> CHR '','' \<notin> set mime \<and>
      CHR '';'' \<notin> set mime \<and> CHR '':'' \<notin> set mime)"

text \<open>
  The part of the serialised body of a built request found along a path; the error of the
  builder when it threw.
\<close>

definition body_at :: "js_error + fetchConfig \<Rightarrow> step list \<Rightarrow> js_error + jsval" where
  "body_at r path =
     (case r of
        Inl e \<Rightarrow> Inl e
      | Inr cfg \<Rightarrow>
          (case body (options cfg) of
             None \<Rightarrow> Inr JUndefined
           | Some b \<Rightarrow> read_path b path))"

text \<open>
  The value of the expression \<^verbatim>\<open>contextText ? `${ANALYSIS_PROMPT}\n\nAdditional context
  provided by user: ${contextText}` : ANALYSIS_PROMPT\<close>, which each builder evaluates, and the
  member list a string-valued property leaves in a serialised object.
\<close>

fun prompt_with :: "string option \<Rightarrow> string" where
  "prompt_with None = ANALYSIS_PROMPT"
| "prompt_with (Some c) =
     (if c = [] then ANALYSIS_PROMPT
      else ANALYSIS_PROMPT @ ''\<newline>\<newline>Additional context provided by user: '' @ c)"

fun string_member :: "string \<Rightarrow> string option \<Rightarrow> (string \<times> jsval) list" where
  "string_member k None = []"
| "string_member k (Some s) = [(k, JStr s)]"

text \<open>
  The two \<^verbatim>\<open>switch\<close> statements of \<^verbatim>\<open>analyzeBloodTest\<close>, named so that a property can
  speak of the request that was built and of the text that was extracted.
\<close>

definition built_request ::
  "runtime \<Rightarrow> AnalysisRequest \<Rightarrow> string option \<Rightarrow> string \<Rightarrow> js_error + fetchConfig" where
  "built_request rt request userApiKey img =
     (if AnalysisRequest.provider request = ''gemini'' then
        prepareGeminiRequest (GOOGLE_GEMINI_API_KEY rt) img (contextText request) userApiKey
      else if AnalysisRequest.provider request = ''openai'' then
        prepareOpenAIRequest img (contextText request) userApiKey
      else if AnalysisRequest.provider request = ''claude'' then
        prepareClaudeRequest img (contextText request) userApiKey
      else Inl (Error (''Unsupported provider: '' @ AnalysisRequest.provider request)))"

definition extracted_text :: "string \<Rightarrow> jsval \<Rightarrow> js_error + jsval" where
  "extracted_text p data =
     (if p = ''gemini'' then
        read_path data [Prop ''candidates'', Index 0, Prop ''content'',
                        Prop ''parts'', Index 0, Prop ''text'']
      else if p = ''openai'' then
        read_path data [Prop ''choices'', Index 0, Prop ''message'', Prop ''content'']
      else if p = ''claude'' then
        read_path data [Prop ''content'', Index 0, Prop ''text'']
      else Inr (JStr []))"

text \<open>The property a step reads, as the TypeError of a failed read names it.\<close>

fun step_name :: "step \<Rightarrow> string" where
  "step_name (Prop k) = k"
| "step_name (Index i) = show_nat i"

text \<open>
  The number a string of decimal digits denotes, read from the left; it says what the
  digits of \<open>show_nat\<close> mean.
\<close>

definition digit_value :: "char \<Rightarrow> nat" where
  "digit_value c = of_char c - 48"

definition decimal_value :: "string \<Rightarrow> nat" where
  "decimal_value s = foldl (\<lambda>a c. 10 * a + digit_value c) 0 s"

text \<open>
  Sample runtimes for concrete runs: a transport that answers every request with the same
  status, text and parsed body, and a clock that stands still.
\<close>

definition reply_with ::
  "nat \<Rightarrow> string \<Rightarrow> js_error + jsval \<Rightarrow> fetchConfig \<Rightarrow> js_error + Response" where
  "reply_with st txt parsed cfg = Inr \<lparr>status = st, body_text = txt, body_json = parsed\<rparr>"

definition sample_runtime ::
  "string option \<Rightarrow> nat \<Rightarrow> string \<Rightarrow> js_error + jsval \<Rightarrow> runtime" where
  "sample_runtime env_key st txt parsed =
     \<lparr>GOOGLE_GEMINI_API_KEY = env_key,
      fetch = reply_with st txt parsed,
      Date_now = 1700000000000\<rparr>"

section \<open>Properties\<close>

subsection \<open>Splitting\<close>

lemma js_split_no_sep: "c \<notin> set s \<Longrightarrow> js_split c s = [s]"
  by (induction s) auto

lemma js_split_at_sep: "c \<notin> set a \<Longrightarrow> js_split c (a @ c # b) = a # js_split c b"
  by (induction a) auto

lemma js_split_first: "\<exists>rest. js_split c s = takeWhile (\<lambda>x. x \<noteq> c) s # rest"
  by (induction s) (auto split: list.splits)

lemma element_at_simps [simp]:
  "element_at (x # xs) 0 = Some x"
  "element_at [] i = None"
  "element_at (x # xs) (Suc i) = element_at xs i"
  "element_at (x # y # ys) 1 = Some y"
  by (simp_all add: element_at_def)

lemma js_split_head: "element_at (js_split c s) 0 = Some (takeWhile (\<lambda>x. x \<noteq> c) s)"
proof -
  obtain rest where "js_split c s = takeWhile (\<lambda>x. x \<noteq> c) s # rest"
    using js_split_first by blast
  then show ?thesis by simp
qed

lemma js_split_second_absent: "c \<notin> set s \<Longrightarrow> element_at (js_split c s) 1 = None"
  by (simp add: js_split_no_sep element_at_def)

lemma js_split_second_present:
  assumes "c \<in> set s"
  shows "element_at (js_split c s) 1 =
           Some (takeWhile (\<lambda>x. x \<noteq> c) (tl (dropWhile (\<lambda>x. x \<noteq> c) s)))"
proof -
  obtain a b where s: "s = a @ c # b" and a: "c \<notin> set a"
    using assms by (meson split_list_first)
  have "js_split c s = a # js_split c b"
    unfolding s using a by (rule js_split_at_sep)
  moreover obtain rest where "js_split c b = takeWhile (\<lambda>x. x \<noteq> c) b # rest"
    using js_split_first by blast
  moreover have "dropWhile (\<lambda>x. x \<noteq> c) s = c # b"
    unfolding s using a by (auto simp: dropWhile_append3)
  ultimately show ?thesis by simp
qed

lemma split_comma_data_uri:
  assumes "well_formed_data_uri mime payload"
  shows "element_at (js_split CHR '','' (data_uri mime payload)) 1 = Some payload"
proof -
  have "CHR '','' \<notin> set (''data:'' @ mime @ '';base64'')"
    using assms by (simp add: well_formed_data_uri_def)
  then have "js_split CHR '','' ((''data:'' @ mime @ '';base64'') @ CHR '','' # payload)
               = (''data:'' @ mime @ '';base64'') # js_split CHR '','' payload"
    by (rule js_split_at_sep)
  moreover have "js_split CHR '','' payload = [payload]"
    using assms by (simp add: well_formed_data_uri_def js_split_no_sep)
  moreover have "data_uri mime payload = (''data:'' @ mime @ '';base64'') @ CHR '','' # payload"
    by (simp add: data_uri_def)
  ultimately show ?thesis by simp
qed

lemma split_semicolon_data_uri:
  assumes "well_formed_data_uri mime payload"
  shows "element_at (js_split CHR '';'' (data_uri mime payload)) 0 = Some (''data:'' @ mime)"
proof -
  have "CHR '';'' \<notin> set (''data:'' @ mime)"
    using assms by (simp add: well_formed_data_uri_def)
  then have "js_split CHR '';'' ((''data:'' @ mime) @ CHR '';'' # (''base64,'' @ payload))
               = (''data:'' @ mime) # js_split CHR '';'' (''base64,'' @ payload)"
    by (rule js_split_at_sep)
  moreover have "data_uri mime payload = (''data:'' @ mime) @ CHR '';'' # (''base64,'' @ payload)"
    by (simp add: data_uri_def)
  ultimately show ?thesis by simp
qed

lemma split_colon_data_uri:
  assumes "well_formed_data_uri mime payload"
  shows "element_at (js_split CHR '':'' (''data:'' @ mime)) 1 = Some mime"
proof -
  have "CHR '':'' \<notin> set ''data''" by simp
  then have "js_split CHR '':'' (''data'' @ CHR '':'' # mime) = ''data'' # js_split CHR '':'' mime"
    by (rule js_split_at_sep)
  moreover have "js_split CHR '':'' mime = [mime]"
    using assms by (simp add: well_formed_data_uri_def js_split_no_sep)
  ultimately show ?thesis by simp
qed

lemma endpoints [simp]:
  "getApiEndpoint ''gemini'' =
     Inr ''https://generativelanguage.googleapis.com/v1beta/models/gemini-1.5-flash:generateContent''"
  "getApiEndpoint ''openai'' = Inr ''https://api.openai.com/v1/chat/completions''"
  "getApiEndpoint ''claude'' = Inr ''https://api.anthropic.com/v1/messages''"
  by (simp_all add: getApiEndpoint_def)

subsection \<open>What the builders return\<close>

lemma prepareGeminiRequest_built:
  assumes "(if truthy apiKey then apiKey else env_key) = Some key" and "key \<noteq> []"
  shows "prepareGeminiRequest env_key img ctx apiKey =
     Inr \<lparr>url = ''https://generativelanguage.googleapis.com/v1beta/models/gemini-1.5-flash:generateContent''
                @ ''?key='' @ key,
          options = \<lparr>
            http_method = ''POST'',
            headers = [(''Content-Type'', ''application/json'')],
            body = Some (JObj [
              (''contents'', JArr [
                 JObj [(''parts'', JArr [
                    JObj [(''text'', JStr (prompt_with ctx))],
                    JObj [(''inline_data'', JObj (
                       (''mime_type'', JStr ''image/jpeg'') #
                       string_member ''data'' (element_at (js_split CHR '','' img) 1)))]])]]),
              (''generationConfig'', JObj [
                 (''temperature'', JNum 0.1),
                 (''maxOutputTokens'', JNum 2048)])])\<rparr>\<rparr>"
proof -
  have p: "(case ctx of
              None \<Rightarrow> ANALYSIS_PROMPT
            | Some c \<Rightarrow>
                if c = [] then ANALYSIS_PROMPT
                else ANALYSIS_PROMPT @ ''\<newline>\<newline>Additional context provided by user: '' @ c)
           = prompt_with ctx"
    by (cases ctx) simp_all
  show ?thesis
    using assms
    by (cases "element_at (js_split CHR '','' img) 1")
      (simp_all add: prepareGeminiRequest_def JSON_stringify_def p del: truthy.simps)
qed

lemma prepareOpenAIRequest_built:
  assumes "key \<noteq> []"
  shows "prepareOpenAIRequest img ctx (Some key) =
     Inr \<lparr>url = ''https://api.openai.com/v1/chat/completions'',
          options = \<lparr>
            http_method = ''POST'',
            headers = [(''Content-Type'', ''application/json''),
                       (''Authorization'', ''Bearer '' @ key)],
            body = Some (JObj [
              (''model'', JStr ''gpt-4-vision-preview''),
              (''messages'', JArr [
                 JObj [(''role'', JStr ''user''),
                       (''content'', JArr [
                          JObj [(''type'', JStr ''text''), (''text'', JStr (prompt_with ctx))],
                          JObj [(''type'', JStr ''image_url''),
                                (''image_url'', JObj [(''url'', JStr img)])]])]]),
              (''max_tokens'', JNum 2048),
              (''temperature'', JNum 0.1)])\<rparr>\<rparr>"
proof -
  have p: "(case ctx of
              None \<Rightarrow> ANALYSIS_PROMPT
            | Some c \<Rightarrow>
                if c = [] then ANALYSIS_PROMPT
                else ANALYSIS_PROMPT @ ''\<newline>\<newline>Additional context provided by user: '' @ c)
           = prompt_with ctx"
    by (cases ctx) simp_all
  show ?thesis
    using assms by (simp add: prepareOpenAIRequest_def JSON_stringify_def p)
qed

lemma prepareClaudeRequest_built:
  assumes "key \<noteq> []"
  shows "prepareClaudeRequest img ctx (Some key) =
     Inr \<lparr>url = ''https://api.anthropic.com/v1/messages'',
          options = \<lparr>
            http_method = ''POST'',
            headers = [(''Content-Type'', ''application/json''),
                       (''x-api-key'', key),
                       (''anthropic-version'', ''2023-06-01'')],
            body = Some (JObj [
              (''model'', JStr ''claude-3-opus-20240229''),
              (''max_tokens'', JNum 2048),
              (''temperature'', JNum 0.1),
              (''messages'', JArr [
                 JObj [(''role'', JStr ''user''),
                       (''content'', JArr [
                          JObj [(''type'', JStr ''text''), (''text'', JStr (prompt_with ctx))],
                          JObj [(''type'', JStr ''image''),
                                (''source'', JObj (
                                   (''type'', JStr ''base64'') #
                                   string_member ''media_type''
                                     (element_at (js_split CHR '':''
                                        (takeWhile (\<lambda>x. x \<noteq> CHR '';'') img)) 1) @
                                   string_member ''data''
                                     (element_at (js_split CHR '','' img) 1)))]])]])])\<rparr>\<rparr>"
proof -
  have p: "(case ctx of
              None \<Rightarrow> ANALYSIS_PROMPT
            | Some c \<Rightarrow>
                if c = [] then ANALYSIS_PROMPT
                else ANALYSIS_PROMPT @ ''\<newline>\<newline>Additional context provided by user: '' @ c)
           = prompt_with ctx"
    by (cases ctx) simp_all
  show ?thesis
    using assms
    by (cases "element_at (js_split CHR '','' img) 1";
        cases "element_at (js_split CHR '':'' (takeWhile (\<lambda>x. x \<noteq> CHR '';'') img)) 1")
      (simp_all add: prepareClaudeRequest_def JSON_stringify_def p js_split_head)
qed

subsection \<open>The stages of an invocation\<close>

lemma analyzeBloodTest_staged:
  "analyzeBloodTest rt request userApiKey =
     (case imageBase64 request of
        None \<Rightarrow> (Failure (Error ''No image provided''), [])
      | Some img \<Rightarrow>
          if img = [] then (Failure (Error ''No image provided''), [])
          else
            case built_request rt request userApiKey img of
              Inl e \<Rightarrow> (Failure e, [])
            | Inr cfg \<Rightarrow>
                (case fetch rt cfg of
                   Inl e \<Rightarrow> (Failure e, [cfg])
                 | Inr response \<Rightarrow>
                     if \<not> ok response then
                       (Failure (Error (''API Error ('' @ show_nat (status response) @ ''): ''
                                        @ body_text response)),
                        [cfg])
                     else
                       case body_json response of
                         Inl e \<Rightarrow> (Failure e, [cfg])
                       | Inr data \<Rightarrow>
                           (case extracted_text (AnalysisRequest.provider request) data of
                              Inl e \<Rightarrow> (Failure e, [cfg])
                            | Inr txt \<Rightarrow>
                                (Success \<lparr>resultText = txt,
                                          AnalysisResult.provider = AnalysisRequest.provider request,
                                          timestamp = Date_now rt\<rparr>,
                                 [cfg]))))"
  unfolding analyzeBloodTest_def built_request_def extracted_text_def
  by (rule refl)

subsection \<open>The three fixed requests\<close>

text \<open>
  C1. Given a well-formed data-URI image, no context and a credential, each builder returns
  exactly the request written out below. Gemini: the credential (the caller's key, or the
  server's default when the caller gave none) is the \<^verbatim>\<open>key\<close> query parameter; the body
  has one entry in \<^verbatim>\<open>contents\<close> with a text part and an \<^verbatim>\<open>inline_data\<close> part whose
  \<^verbatim>\<open>mime_type\<close> is the constant image/jpeg and whose \<^verbatim>\<open>data\<close> is the payload without the
  prefix, and \<^verbatim>\<open>generationConfig\<close> has temperature 0.1 and maxOutputTokens 2048. OpenAI: the
  credential is in the header \<^verbatim>\<open>Authorization: Bearer\<close>; the body has one user message with
  a text part and an \<^verbatim>\<open>image_url\<close> part carrying the whole data URI, max_tokens 2048 and
  temperature 0.1. Claude: the credential is in the header \<^verbatim>\<open>x-api-key\<close>, next to
  \<^verbatim>\<open>anthropic-version: 2023-06-01\<close>; the body has one user message with a text block and a
  base64 image block whose \<^verbatim>\<open>media_type\<close> is the MIME type of the prefix and whose
  \<^verbatim>\<open>data\<close> is the payload without the prefix, and max_tokens 2048.
\<close>

theorem fixed_request_schemas:
  assumes "well_formed_data_uri mime payload" and "key \<noteq> []"
  shows
    "((if truthy apiKey then apiKey else env_key) = Some key \<longrightarrow>
      prepareGeminiRequest env_key (data_uri mime payload) None apiKey =
        Inr \<lparr>url = ''https://generativelanguage.googleapis.com/v1beta/models/gemini-1.5-flash:generateContent''
                   @ ''?key='' @ key,
             options = \<lparr>
               http_method = ''POST'',
               headers = [(''Content-Type'', ''application/json'')],
               body = Some (JObj [
                 (''contents'', JArr [
                    JObj [(''parts'', JArr [
                       JObj [(''text'', JStr ANALYSIS_PROMPT)],
                       JObj [(''inline_data'', JObj [
                          (''mime_type'', JStr ''image/jpeg''),
                          (''data'', JStr payload)])]])]]),
                 (''generationConfig'', JObj [
                    (''temperature'', JNum 0.1),
                    (''maxOutputTokens'', JNum 2048)])])\<rparr>\<rparr>) \<and>
     prepareOpenAIRequest (data_uri mime payload) None (Some key) =
        Inr \<lparr>url = ''https://api.openai.com/v1/chat/completions'',
             options = \<lparr>
               http_method = ''POST'',
               headers = [(''Content-Type'', ''application/json''),
                          (''Authorization'', ''Bearer '' @ key)],
               body = Some (JObj [
                 (''model'', JStr ''gpt-4-vision-preview''),
                 (''messages'', JArr [
                    JObj [(''role'', JStr ''user''),
                          (''content'', JArr [
                             JObj [(''type'', JStr ''text''), (''text'', JStr ANALYSIS_PROMPT)],
                             JObj [(''type'', JStr ''image_url''),
                                   (''image_url'', JObj [
                                      (''url'', JStr (data_uri mime payload))])]])]]),
                 (''max_tokens'', JNum 2048),
                 (''temperature'', JNum 0.1)])\<rparr>\<rparr> \<and>
     prepareClaudeRequest (data_uri mime payload) None (Some key) =
        Inr \<lparr>url = ''https://api.anthropic.com/v1/messages'',
             options = \<lparr>
               http_method = ''POST'',
               headers = [(''Content-Type'', ''application/json''),
                          (''x-api-key'', key),
                          (''anthropic-version'', ''2023-06-01'')],
               body = Some (JObj [
                 (''model'', JStr ''claude-3-opus-20240229''),
                 (''max_tokens'', JNum 2048),
                 (''temperature'', JNum 0.1),
                 (''messages'', JArr [
                    JObj [(''role'', JStr ''user''),
                          (''content'', JArr [
                             JObj [(''type'', JStr ''text''), (''text'', JStr ANALYSIS_PROMPT)],
                             JObj [(''type'', JStr ''image''),
                                   (''source'', JObj [
                                      (''type'', JStr ''base64''),
                                      (''media_type'', JStr mime),
                                      (''data'', JStr payload)])]])]])])\<rparr>\<rparr>"
  using assms(2) split_comma_data_uri [OF assms(1)] split_semicolon_data_uri [OF assms(1)]
    split_colon_data_uri [OF assms(1)]
  by (simp add: prepareGeminiRequest_def prepareOpenAIRequest_def prepareClaudeRequest_def
      JSON_stringify_def del: truthy.simps)

theorem fixed_request_schemas_witness:
  "well_formed_data_uri ''image/png'' ''iVBORw0KGgo='' \<and>
   prepareGeminiRequest (Some ''server-key'') ''data:image/png;base64,iVBORw0KGgo='' None None =
     Inr \<lparr>url = ''https://generativelanguage.googleapis.com/v1beta/models/gemini-1.5-flash:generateContent?key=server-key'',
          options = \<lparr>
            http_method = ''POST'',
            headers = [(''Content-Type'', ''application/json'')],
            body = Some (JObj [
              (''contents'', JArr [
                 JObj [(''parts'', JArr [
                    JObj [(''text'', JStr ANALYSIS_PROMPT)],
                    JObj [(''inline_data'', JObj [
                       (''mime_type'', JStr ''image/jpeg''),
                       (''data'', JStr ''iVBORw0KGgo='')])]])]]),
              (''generationConfig'', JObj [
                 (''temperature'', JNum 0.1),
                 (''maxOutputTokens'', JNum 2048)])])\<rparr>\<rparr> \<and>
   body_at (prepareOpenAIRequest ''data:image/png;base64,iVBORw0KGgo='' None (Some ''server-key''))
     [Prop ''messages'', Index 0, Prop ''content'', Index 1, Prop ''image_url'', Prop ''url''] =
     Inr (JStr ''data:image/png;base64,iVBORw0KGgo='') \<and>
   body_at (prepareClaudeRequest ''data:image/png;base64,iVBORw0KGgo='' None (Some ''server-key''))
     [Prop ''messages'', Index 0, Prop ''content'', Index 1, Prop ''source''] =
     Inr (JObj [(''type'', JStr ''base64''), (''media_type'', JStr ''image/png''),
                (''data'', JStr ''iVBORw0KGgo='')])"
  using fixed_request_schemas [of "''image/png''" "''iVBORw0KGgo=''" "''server-key''" None
      "Some ''server-key''"]
  by (simp add: well_formed_data_uri_def data_uri_def body_at_def)

subsection \<open>The prompt\<close>

text \<open>
  C2, as stated, at the context \<^verbatim>\<open>fasting\<close>: the prompt sent is not the fixed prompt with
  \<^verbatim>\<open>Additional context provided by user: fasting\<close> appended directly.
\<close>

theorem context_not_appended_directly:
  "body_at (prepareOpenAIRequest ''data:image/png;base64,AAAA'' (Some ''fasting'') (Some ''sk-1''))
     [Prop ''messages'', Index 0, Prop ''content'', Index 0, Prop ''text''] \<noteq>
   Inr (JStr (ANALYSIS_PROMPT @ ''Additional context provided by user: fasting''))"
  by (simp add: prepareOpenAIRequest_built body_at_def)

text \<open>
  C2, amended. With a non-empty context the prompt sent to each of the three providers is
  the fixed prompt, then two newline characters, then
  \<^verbatim>\<open>Additional context provided by user: \<close> and the context, and nothing else; with no
  context, or an empty one, it is the fixed prompt unchanged.
\<close>

theorem context_appended_after_blank_line:
  assumes "key \<noteq> []" and "(if truthy apiKey then apiKey else env_key) = Some key"
  shows
    "(c \<noteq> [] \<longrightarrow>
        body_at (prepareGeminiRequest env_key img (Some c) apiKey)
          [Prop ''contents'', Index 0, Prop ''parts'', Index 0, Prop ''text''] =
          Inr (JStr (ANALYSIS_PROMPT @ ''\<newline>\<newline>'' @ ''Additional context provided by user: '' @ c)) \<and>
        body_at (prepareOpenAIRequest img (Some c) (Some key))
          [Prop ''messages'', Index 0, Prop ''content'', Index 0, Prop ''text''] =
          Inr (JStr (ANALYSIS_PROMPT @ ''\<newline>\<newline>'' @ ''Additional context provided by user: '' @ c)) \<and>
        body_at (prepareClaudeRequest img (Some c) (Some key))
          [Prop ''messages'', Index 0, Prop ''content'', Index 0, Prop ''text''] =
          Inr (JStr (ANALYSIS_PROMPT @ ''\<newline>\<newline>'' @ ''Additional context provided by user: '' @ c))) \<and>
     (\<not> truthy ctx \<longrightarrow>
        body_at (prepareGeminiRequest env_key img ctx apiKey)
          [Prop ''contents'', Index 0, Prop ''parts'', Index 0, Prop ''text''] =
          Inr (JStr ANALYSIS_PROMPT) \<and>
        body_at (prepareOpenAIRequest img ctx (Some key))
          [Prop ''messages'', Index 0, Prop ''content'', Index 0, Prop ''text''] =
          Inr (JStr ANALYSIS_PROMPT) \<and>
        body_at (prepareClaudeRequest img ctx (Some key))
          [Prop ''messages'', Index 0, Prop ''content'', Index 0, Prop ''text''] =
          Inr (JStr ANALYSIS_PROMPT))"
proof -
  have "\<not> truthy ctx \<Longrightarrow> prompt_with ctx = ANALYSIS_PROMPT"
    by (cases ctx) auto
  then show ?thesis
    using assms
    by (simp add: prepareGeminiRequest_built prepareOpenAIRequest_built
        prepareClaudeRequest_built body_at_def del: truthy.simps)
qed

theorem context_appended_after_blank_line_witness:
  "''sk-1'' \<noteq> [] \<and> (if truthy (Some ''sk-1'') then Some ''sk-1'' else None) = Some ''sk-1'' \<and>
   ''fasting'' \<noteq> [] \<and> \<not> truthy None \<and>
   body_at (prepareGeminiRequest None ''data:image/png;base64,AAAA'' (Some ''fasting'') (Some ''sk-1''))
     [Prop ''contents'', Index 0, Prop ''parts'', Index 0, Prop ''text''] =
     Inr (JStr (ANALYSIS_PROMPT @ ''\<newline>\<newline>Additional context provided by user: fasting'')) \<and>
   body_at (prepareClaudeRequest ''data:image/png;base64,AAAA'' None (Some ''sk-1''))
     [Prop ''messages'', Index 0, Prop ''content'', Index 0, Prop ''text''] =
     Inr (JStr ANALYSIS_PROMPT)"
  using context_appended_after_blank_line [where key = "''sk-1''" and apiKey = "Some ''sk-1''"
      and env_key = None and c = "''fasting''" and img = "''data:image/png;base64,AAAA''"
      and ctx = None]
  by simp

subsection \<open>The data URI\<close>

text \<open>
  C3. From the image \<^verbatim>\<open>data:image/jpeg;base64,AAAA\<close> the Gemini builder produces the
  \<^verbatim>\<open>inline_data\<close> part with \<^verbatim>\<open>mime_type\<close> image/jpeg and \<^verbatim>\<open>data\<close> AAAA. For every
  well-formed data URI the prefix stripping of the Gemini and Claude builders gives back the
  payload, and the media type the Claude builder parses is the MIME type of the prefix.
\<close>

theorem data_uri_round_trip:
  assumes "key \<noteq> []" and "(if truthy apiKey then apiKey else env_key) = Some key"
  shows
    "body_at (prepareGeminiRequest env_key ''data:image/jpeg;base64,AAAA'' ctx apiKey)
       [Prop ''contents'', Index 0, Prop ''parts'', Index 1, Prop ''inline_data''] =
       Inr (JObj [(''mime_type'', JStr ''image/jpeg''), (''data'', JStr ''AAAA'')]) \<and>
     (well_formed_data_uri mime payload \<longrightarrow>
        body_at (prepareGeminiRequest env_key (data_uri mime payload) ctx apiKey)
          [Prop ''contents'', Index 0, Prop ''parts'', Index 1, Prop ''inline_data'', Prop ''data''] =
          Inr (JStr payload) \<and>
        body_at (prepareClaudeRequest (data_uri mime payload) ctx (Some key))
          [Prop ''messages'', Index 0, Prop ''content'', Index 1, Prop ''source''] =
          Inr (JObj [(''type'', JStr ''base64''), (''media_type'', JStr mime),
                     (''data'', JStr payload)]))"
proof (intro conjI impI)
  have "well_formed_data_uri ''image/jpeg'' ''AAAA''"
    by (simp add: well_formed_data_uri_def)
  from split_comma_data_uri [OF this]
  have "element_at (js_split CHR '','' ''data:image/jpeg;base64,AAAA'') 1 = Some ''AAAA''"
    by (simp add: data_uri_def)
  then show "body_at (prepareGeminiRequest env_key ''data:image/jpeg;base64,AAAA'' ctx apiKey)
       [Prop ''contents'', Index 0, Prop ''parts'', Index 1, Prop ''inline_data''] =
       Inr (JObj [(''mime_type'', JStr ''image/jpeg''), (''data'', JStr ''AAAA'')])"
    using assms by (simp add: prepareGeminiRequest_built body_at_def del: truthy.simps)
next
  assume wf: "well_formed_data_uri mime payload"
  show "body_at (prepareGeminiRequest env_key (data_uri mime payload) ctx apiKey)
          [Prop ''contents'', Index 0, Prop ''parts'', Index 1, Prop ''inline_data'', Prop ''data''] =
          Inr (JStr payload)"
    using assms split_comma_data_uri [OF wf]
    by (simp add: prepareGeminiRequest_built body_at_def del: truthy.simps)
  have "takeWhile (\<lambda>x. x \<noteq> CHR '';'') (data_uri mime payload) = ''data:'' @ mime"
    using split_semicolon_data_uri [OF wf] by (simp add: js_split_head)
  then show "body_at (prepareClaudeRequest (data_uri mime payload) ctx (Some key))
          [Prop ''messages'', Index 0, Prop ''content'', Index 1, Prop ''source''] =
          Inr (JObj [(''type'', JStr ''base64''), (''media_type'', JStr mime),
                     (''data'', JStr payload)])"
    using assms(1) split_comma_data_uri [OF wf] split_colon_data_uri [OF wf]
    by (simp add: prepareClaudeRequest_built body_at_def)
qed

theorem data_uri_round_trip_witness:
  "''sk-1'' \<noteq> [] \<and> (if truthy None then None else Some ''sk-1'') = Some ''sk-1'' \<and>
   well_formed_data_uri ''image/webp'' ''UklGRg=='' \<and>
   body_at (prepareGeminiRequest (Some ''sk-1'') ''data:image/jpeg;base64,AAAA'' None None)
     [Prop ''contents'', Index 0, Prop ''parts'', Index 1, Prop ''inline_data''] =
     Inr (JObj [(''mime_type'', JStr ''image/jpeg''), (''data'', JStr ''AAAA'')]) \<and>
   body_at (prepareClaudeRequest ''data:image/webp;base64,UklGRg=='' None (Some ''sk-1''))
     [Prop ''messages'', Index 0, Prop ''content'', Index 1, Prop ''source''] =
     Inr (JObj [(''type'', JStr ''base64''), (''media_type'', JStr ''image/webp''),
                (''data'', JStr ''UklGRg=='')])"
  using data_uri_round_trip [where key = "''sk-1''" and apiKey = None and env_key = "Some ''sk-1''"
      and mime = "''image/webp''" and payload = "''UklGRg==''" and ctx = None]
  by (simp add: well_formed_data_uri_def data_uri_def)

subsection \<open>Validation, credentials and the provider switch\<close>

text \<open>
  C4. When the image of a request is absent or empty, the adapter returns the failure
  \<^verbatim>\<open>No image provided\<close> and makes no network call: nothing is built or sent. The route then
  answers with status 400.
\<close>

theorem missing_image_rejected_before_any_call:
  assumes "\<not> truthy (imageBase64 request)"
  shows "analyzeBloodTest rt request userApiKey = (Failure (Error ''No image provided''), []) \<and>
         POST rt \<lparr>request_json = Inr request, headers_get = h\<rparr> =
           (\<lparr>response_json = ErrorPayload (Error ''No image provided''),
             response_status = 400\<rparr>, [])"
proof -
  have "analyzeBloodTest rt request k = (Failure (Error ''No image provided''), [])" for k
    using assms by (cases "imageBase64 request") (simp_all add: analyzeBloodTest_def)
  then show ?thesis
    by (simp add: POST_def)
qed

theorem missing_image_rejected_before_any_call_witness:
  "\<not> truthy (imageBase64 \<lparr>imageBase64 = Some [], contextText = Some ''fasting'',
                              provider = ''gemini''\<rparr>) \<and>
   analyzeBloodTest (sample_runtime (Some ''server-key'') 200 ''ok'' (Inr JNull))
     \<lparr>imageBase64 = Some [], contextText = Some ''fasting'', provider = ''gemini''\<rparr>
     (Some ''sk-1'') = (Failure (Error ''No image provided''), [])"
  using missing_image_rejected_before_any_call
    [where request = "\<lparr>imageBase64 = Some [], contextText = Some ''fasting'',
                        provider = ''gemini''\<rparr>"
       and rt = "sample_runtime (Some ''server-key'') 200 ''ok'' (Inr JNull)"
       and userApiKey = "Some ''sk-1''"]
  by simp

text \<open>
  C5. Credentials are resolved before any network call, and differently per provider.
  Gemini: without a caller key the server's \<^verbatim>\<open>GOOGLE_GEMINI_API_KEY\<close> is used, and the
  builder fails with \<^verbatim>\<open>No Gemini API key provided\<close> only when both are absent. OpenAI and
  Claude: without a caller key the builder fails with its missing-key error, whatever the
  server's environment holds. In each of these failures the adapter makes no network call.
\<close>

theorem credential_resolution:
  "(\<not> truthy userApiKey \<and> env_key = Some k \<and> k \<noteq> [] \<longrightarrow>
      map_sum id url (prepareGeminiRequest env_key img ctx userApiKey) =
        Inr (''https://generativelanguage.googleapis.com/v1beta/models/gemini-1.5-flash:generateContent''
             @ ''?key='' @ k)) \<and>
   (\<not> truthy userApiKey \<and> \<not> truthy env_key \<longrightarrow>
      prepareGeminiRequest env_key img ctx userApiKey = Inl (Error ''No Gemini API key provided'')) \<and>
   (\<not> truthy userApiKey \<longrightarrow>
      prepareOpenAIRequest img ctx userApiKey = Inl (Error ''No OpenAI API key provided'') \<and>
      prepareClaudeRequest img ctx userApiKey = Inl (Error ''No Claude API key provided'')) \<and>
   (\<not> truthy userApiKey \<and> imageBase64 request = Some img \<and> img \<noteq> [] \<longrightarrow>
      (AnalysisRequest.provider request = ''gemini'' \<and> \<not> truthy (GOOGLE_GEMINI_API_KEY rt) \<longrightarrow>
         analyzeBloodTest rt request userApiKey =
           (Failure (Error ''No Gemini API key provided''), [])) \<and>
      (AnalysisRequest.provider request = ''openai'' \<longrightarrow>
         analyzeBloodTest rt request userApiKey =
           (Failure (Error ''No OpenAI API key provided''), [])) \<and>
      (AnalysisRequest.provider request = ''claude'' \<longrightarrow>
         analyzeBloodTest rt request userApiKey =
           (Failure (Error ''No Claude API key provided''), []))) \<and>
   (\<not> truthy userApiKey \<and>
    (AnalysisRequest.provider request = ''gemini'' \<and> \<not> truthy (GOOGLE_GEMINI_API_KEY rt) \<or>
     AnalysisRequest.provider request = ''openai'' \<or>
     AnalysisRequest.provider request = ''claude'') \<longrightarrow>
      snd (analyzeBloodTest rt request userApiKey) = [])"
proof (intro conjI impI, goal_cases)
  case 1
  then have "(if truthy userApiKey then userApiKey else env_key) = Some k" and "k \<noteq> []"
    by simp_all
  from prepareGeminiRequest_built [OF this] show ?case by simp
next
  case 2
  then show ?case
    by (cases env_key) (simp_all add: prepareGeminiRequest_def)
next
  case 3
  then show ?case
    by (cases userApiKey) (simp_all add: prepareOpenAIRequest_def)
next
  case 4
  then show ?case
    by (cases userApiKey) (simp_all add: prepareClaudeRequest_def)
next
  case 5
  then have "prepareGeminiRequest (GOOGLE_GEMINI_API_KEY rt) img (contextText request) userApiKey
               = Inl (Error ''No Gemini API key provided'')"
    by (cases "GOOGLE_GEMINI_API_KEY rt") (simp_all add: prepareGeminiRequest_def)
  with 5 show ?case
    by (simp add: analyzeBloodTest_def del: truthy.simps)
next
  case 6
  then have "prepareOpenAIRequest img (contextText request) userApiKey
               = Inl (Error ''No OpenAI API key provided'')"
    by (cases userApiKey) (simp_all add: prepareOpenAIRequest_def)
  with 6 show ?case
    by (simp add: analyzeBloodTest_def del: truthy.simps)
next
  case 7
  then have "prepareClaudeRequest img (contextText request) userApiKey
               = Inl (Error ''No Claude API key provided'')"
    by (cases userApiKey) (simp_all add: prepareClaudeRequest_def)
  with 7 show ?case
    by (simp add: analyzeBloodTest_def del: truthy.simps)
next
  case 8
  have "prepareGeminiRequest (GOOGLE_GEMINI_API_KEY rt) i (contextText request) userApiKey
          = Inl (Error ''No Gemini API key provided'')"
    if "\<not> truthy (GOOGLE_GEMINI_API_KEY rt)" for i
    using that 8 by (cases "GOOGLE_GEMINI_API_KEY rt") (simp_all add: prepareGeminiRequest_def)
  moreover have "prepareOpenAIRequest i (contextText request) userApiKey
          = Inl (Error ''No OpenAI API key provided'')" for i
    using 8 by (cases userApiKey) (simp_all add: prepareOpenAIRequest_def)
  moreover have "prepareClaudeRequest i (contextText request) userApiKey
          = Inl (Error ''No Claude API key provided'')" for i
    using 8 by (cases userApiKey) (simp_all add: prepareClaudeRequest_def)
  ultimately show ?case
    using 8 by (auto simp add: analyzeBloodTest_def simp del: truthy.simps split: option.splits)
qed

theorem credential_resolution_witness:
  "\<not> truthy None \<and> \<not> truthy (Some []) \<and> ''server-key'' \<noteq> [] \<and>
   map_sum id url (prepareGeminiRequest (Some ''server-key'') ''data:image/png;base64,AAAA'' None None) =
     Inr ''https://generativelanguage.googleapis.com/v1beta/models/gemini-1.5-flash:generateContent?key=server-key'' \<and>
   prepareGeminiRequest (Some []) ''data:image/png;base64,AAAA'' None None =
     Inl (Error ''No Gemini API key provided'') \<and>
   analyzeBloodTest (sample_runtime (Some ''server-key'') 200 ''ok'' (Inr JNull))
     \<lparr>imageBase64 = Some ''data:image/png;base64,AAAA'', contextText = None,
      provider = ''claude''\<rparr> None = (Failure (Error ''No Claude API key provided''), [])"
  using credential_resolution
    [where userApiKey = None and env_key = "Some ''server-key''" and k = "''server-key''"
       and img = "''data:image/png;base64,AAAA''" and ctx = None
       and rt = "sample_runtime (Some ''server-key'') 200 ''ok'' (Inr JNull)"
       and request = "\<lparr>imageBase64 = Some ''data:image/png;base64,AAAA'', contextText = None,
                          provider = ''claude''\<rparr>"]
    credential_resolution
    [where userApiKey = None and env_key = "Some []" and k = "''server-key''"
       and img = "''data:image/png;base64,AAAA''" and ctx = None
       and rt = "sample_runtime (Some ''server-key'') 200 ''ok'' (Inr JNull)"
       and request = "\<lparr>imageBase64 = Some ''data:image/png;base64,AAAA'', contextText = None,
                          provider = ''claude''\<rparr>"]
  by simp

text \<open>
  C6, as stated, at a request with the provider \<^verbatim>\<open>mistral\<close> and no image: the failure is the
  validation failure of the image, not the unsupported-provider failure.
\<close>

theorem unknown_provider_without_image:
  "analyzeBloodTest (sample_runtime (Some ''server-key'') 200 ''ok'' (Inr JNull))
     \<lparr>imageBase64 = None, contextText = None, provider = ''mistral''\<rparr> (Some ''sk-1'') =
     (Failure (Error ''No image provided''), []) \<and>
   fst (analyzeBloodTest (sample_runtime (Some ''server-key'') 200 ''ok'' (Inr JNull))
     \<lparr>imageBase64 = None, contextText = None, provider = ''mistral''\<rparr> (Some ''sk-1'')) \<noteq>
     Failure (Error ''Unsupported provider: mistral'')"
  by (simp add: analyzeBloodTest_def)

text \<open>
  C6, amended. For every request whose provider is none of \<^verbatim>\<open>gemini\<close>, \<^verbatim>\<open>openai\<close>,
  \<^verbatim>\<open>claude\<close>, the adapter returns a failure and makes no network call; when the image is
  present and non-empty the failure is \<^verbatim>\<open>Unsupported provider: \<close> followed by the
  identifier, and otherwise it is the validation failure of the image, which is checked
  first. The endpoint table fails on such an identifier in the same way.
\<close>

theorem unknown_provider_rejected:
  assumes "AnalysisRequest.provider request \<notin> {''gemini'', ''openai'', ''claude''}"
  shows "snd (analyzeBloodTest rt request userApiKey) = [] \<and>
         (truthy (imageBase64 request) \<longrightarrow>
            fst (analyzeBloodTest rt request userApiKey) =
              Failure (Error (''Unsupported provider: '' @ AnalysisRequest.provider request))) \<and>
         (\<not> truthy (imageBase64 request) \<longrightarrow>
            fst (analyzeBloodTest rt request userApiKey) = Failure (Error ''No image provided'')) \<and>
         getApiEndpoint (AnalysisRequest.provider request) =
           Inl (Error (''Unsupported provider: '' @ AnalysisRequest.provider request))"
  using assms
  by (cases "imageBase64 request") (simp_all add: analyzeBloodTest_def getApiEndpoint_def)

theorem unknown_provider_rejected_witness:
  "AnalysisRequest.provider \<lparr>imageBase64 = Some ''data:image/png;base64,AAAA'',
       contextText = None, provider = ''mistral''\<rparr> \<notin> {''gemini'', ''openai'', ''claude''} \<and>
   truthy (Some ''data:image/png;base64,AAAA'') \<and>
   analyzeBloodTest (sample_runtime (Some ''server-key'') 200 ''ok'' (Inr JNull))
     \<lparr>imageBase64 = Some ''data:image/png;base64,AAAA'', contextText = None,
      provider = ''mistral''\<rparr> (Some ''sk-1'') =
     (Failure (Error ''Unsupported provider: mistral''), [])"
  using unknown_provider_rejected
    [where request = "\<lparr>imageBase64 = Some ''data:image/png;base64,AAAA'', contextText = None,
                          provider = ''mistral''\<rparr>"
       and rt = "sample_runtime (Some ''server-key'') 200 ''ok'' (Inr JNull)"
       and userApiKey = "Some ''sk-1''"]
  by (simp add: prod_eq_iff)

subsection \<open>The network call and the reply\<close>

lemma digit_value_digit_char: "d < 10 \<Longrightarrow> digit_value (digit_char d) = d"
  by (simp add: digit_value_def digit_char_def)

lemma digit_chars: "\<forall>d \<in> set [0..<10]. digit_char d \<in> set ''0123456789''"
  by code_simp

lemma digit_char_is_digit: "d < 10 \<Longrightarrow> digit_char d \<in> set ''0123456789''"
proof -
  assume "d < 10"
  then have "d \<in> set [0..<10]" by simp
  with digit_chars show ?thesis by blast
qed

lemma decimal_value_snoc: "decimal_value (s @ [c]) = 10 * decimal_value s + digit_value c"
  by (simp add: decimal_value_def)

lemma show_nat_value: "decimal_value (show_nat n) = n"
proof (induction n rule: show_nat.induct)
  case (1 n)
  show ?case
  proof (cases "n < 10")
    case True
    then show ?thesis
      by (simp add: show_nat.simps [of n] decimal_value_def digit_value_digit_char)
  next
    case False
    with 1 show ?thesis
      by (simp add: show_nat.simps [of n] decimal_value_snoc digit_value_digit_char)
  qed
qed

lemma show_nat_digits: "set (show_nat n) \<subseteq> set ''0123456789''"
proof (induction n rule: show_nat.induct)
  case (1 n)
  show ?case
  proof (cases "n < 10")
    case True
    then show ?thesis
      using digit_char_is_digit [of n] by (simp add: show_nat.simps [of n])
  next
    case False
    with 1 show ?thesis
      using digit_char_is_digit [of "n mod 10"] by (simp add: show_nat.simps [of n])
  qed
qed

lemma show_nat_canonical: "show_nat n \<noteq> [] \<and> (hd (show_nat n) = CHR ''0'' \<longrightarrow> n = 0)"
proof (induction n rule: show_nat.induct)
  case (1 n)
  show ?case
  proof (cases "n < 10")
    case True
    have "digit_value CHR ''0'' = 0" by (simp add: digit_value_def)
    with True digit_value_digit_char [of n] show ?thesis
      by (auto simp add: show_nat.simps [of n])
  next
    case False
    then have "n div 10 \<noteq> 0" by simp
    with False 1 show ?thesis
      by (simp add: show_nat.simps [of n])
  qed
qed

lemma show_nat_inj: "show_nat m = show_nat n \<Longrightarrow> m = n"
  by (metis show_nat_value)

lemma show_nat_codes:
  "show_nat 400 = ''400''" "show_nat 401 = ''401''" "show_nat 403 = ''403''"
  "show_nat 404 = ''404''" "show_nat 429 = ''429''" "show_nat 500 = ''500''"
  "show_nat 503 = ''503''" "show_nat 0 = ''0''"
  by code_simp+

text \<open>
  C7. An invocation makes at most one network call. When that call is answered with a
  status outside 200 to 299, the adapter returns the failure whose message is
  \<^verbatim>\<open>API Error (\<close>, the status in decimal, \<^verbatim>\<open>): \<close> and the text of the reply as it came;
  the request is not sent again. The status in decimal is a non-empty string of the digits
  0 to 9 that denotes the status and has no leading zero, so that two different statuses
  are never reported alike.
\<close>

theorem http_error_reported_without_retry:
  "length (snd (analyzeBloodTest rt request userApiKey)) \<le> 1 \<and>
   (snd (analyzeBloodTest rt request userApiKey) = [cfg] \<and>
    fetch rt cfg = Inr response \<and> \<not> ok response \<longrightarrow>
      analyzeBloodTest rt request userApiKey =
        (Failure (Error (''API Error ('' @ show_nat (status response) @ ''): ''
                         @ body_text response)),
         [cfg])) \<and>
   decimal_value (show_nat (status response)) = status response \<and>
   set (show_nat (status response)) \<subseteq> set ''0123456789'' \<and>
   show_nat (status response) \<noteq> [] \<and>
   (hd (show_nat (status response)) = CHR ''0'' \<longrightarrow> status response = 0) \<and>
   (show_nat (status response) = show_nat other_status \<longrightarrow> status response = other_status)"
proof -
  have "length (snd (analyzeBloodTest rt request userApiKey)) \<le> 1 \<and>
   (snd (analyzeBloodTest rt request userApiKey) = [cfg] \<and>
    fetch rt cfg = Inr response \<and> \<not> ok response \<longrightarrow>
      analyzeBloodTest rt request userApiKey =
        (Failure (Error (''API Error ('' @ show_nat (status response) @ ''): ''
                         @ body_text response)),
         [cfg]))"
    by (auto simp add: analyzeBloodTest_staged split: option.splits sum.splits)
  then show ?thesis
    using show_nat_value [of "status response"] show_nat_digits [of "status response"]
      show_nat_canonical [of "status response"] show_nat_inj [of "status response" other_status]
    by blast
qed

theorem http_error_reported_without_retry_witness:
  "\<not> ok \<lparr>status = 401, body_text = ''invalid x-api-key'',
           body_json = Inl (JsonSyntaxError ''Unexpected token i'')\<rparr> \<and>
   analyzeBloodTest
     (sample_runtime None 401 ''invalid x-api-key'' (Inl (JsonSyntaxError ''Unexpected token i'')))
     \<lparr>imageBase64 = Some ''data:image/png;base64,AAAA'', contextText = None,
      provider = ''openai''\<rparr> (Some ''sk-1'') =
     (Failure (Error ''API Error (401): invalid x-api-key''),
      [projr (prepareOpenAIRequest ''data:image/png;base64,AAAA'' None (Some ''sk-1''))]) \<and>
   \<not> ok \<lparr>status = 503, body_text = ''overloaded'', body_json = Inr JNull\<rparr> \<and>
   analyzeBloodTest
     (sample_runtime None 503 ''overloaded'' (Inr JNull))
     \<lparr>imageBase64 = Some ''data:image/png;base64,AAAA'', contextText = None,
      provider = ''claude''\<rparr> (Some ''sk-ant'') =
     (Failure (Error ''API Error (503): overloaded''),
      [projr (prepareClaudeRequest ''data:image/png;base64,AAAA'' None (Some ''sk-ant''))]) \<and>
   decimal_value ''401'' = 401 \<and> decimal_value ''503'' = 503"
  using http_error_reported_without_retry
    [where rt = "sample_runtime None 401 ''invalid x-api-key''
                   (Inl (JsonSyntaxError ''Unexpected token i''))"
       and request = "\<lparr>imageBase64 = Some ''data:image/png;base64,AAAA'', contextText = None,
                          provider = ''openai''\<rparr>"
       and userApiKey = "Some ''sk-1''"
       and cfg = "projr (prepareOpenAIRequest ''data:image/png;base64,AAAA'' None (Some ''sk-1''))"
       and response = "\<lparr>status = 401, body_text = ''invalid x-api-key'',
                           body_json = Inl (JsonSyntaxError ''Unexpected token i'')\<rparr>"
       and other_status = 401]
    http_error_reported_without_retry
    [where rt = "sample_runtime None 503 ''overloaded'' (Inr JNull)"
       and request = "\<lparr>imageBase64 = Some ''data:image/png;base64,AAAA'', contextText = None,
                          provider = ''claude''\<rparr>"
       and userApiKey = "Some ''sk-ant''"
       and cfg = "projr (prepareClaudeRequest ''data:image/png;base64,AAAA'' None (Some ''sk-ant''))"
       and response = "\<lparr>status = 503, body_text = ''overloaded'', body_json = Inr JNull\<rparr>"
       and other_status = 503]
  by (simp add: analyzeBloodTest_staged built_request_def sample_runtime_def reply_with_def
      ok_def show_nat_codes prepareOpenAIRequest_built prepareClaudeRequest_built)

lemma read_step_absent:
  "b = JUndefined \<or> b = JNull \<Longrightarrow> read_step b st = Inl (TypeError_read b (step_name st))"
  by (cases st) auto

lemma read_step_throws:
  "read_step v st = Inl e \<Longrightarrow> (v = JUndefined \<or> v = JNull) \<and> e = TypeError_read v (step_name st)"
  by (cases v; cases st) auto

lemma read_path_append:
  "read_path v (pre @ rest) =
     (case read_path v pre of Inl e \<Rightarrow> Inl e | Inr b \<Rightarrow> read_path b rest)"
  by (induction pre arbitrary: v) (auto split: sum.splits)

lemma read_path_throws:
  "read_path v path = Inl e \<Longrightarrow> \<exists>b k. (b = JUndefined \<or> b = JNull) \<and> e = TypeError_read b k"
proof (induction path arbitrary: v)
  case Nil
  then show ?case by simp
next
  case (Cons st path)
  show ?case
  proof (cases "read_step v st")
    case (Inl e')
    with Cons.prems have "e = e'" by simp
    with Inl read_step_throws show ?thesis by blast
  next
    case (Inr v')
    with Cons.prems have "read_path v' path = Inl e" by simp
    then show ?thesis by (rule Cons.IH)
  qed
qed

lemma sent_request_provider:
  assumes "snd (analyzeBloodTest rt request userApiKey) = [cfg]"
  shows "AnalysisRequest.provider request \<in> {''gemini'', ''openai'', ''claude''}"
proof (rule ccontr)
  assume "AnalysisRequest.provider request \<notin> {''gemini'', ''openai'', ''claude''}"
  then have "snd (analyzeBloodTest rt request userApiKey) = []"
    by (cases "imageBase64 request") (simp_all add: analyzeBloodTest_staged built_request_def)
  with assms show False by simp
qed

lemma decoded_reply:
  assumes "snd (analyzeBloodTest rt request userApiKey) = [cfg]"
    and "fetch rt cfg = Inr response" and "ok response" and "body_json response = Inr data"
  shows "fst (analyzeBloodTest rt request userApiKey) =
           (case extracted_text (AnalysisRequest.provider request) data of
              Inl e \<Rightarrow> Failure e
            | Inr txt \<Rightarrow>
                Success \<lparr>resultText = txt,
                         AnalysisResult.provider = AnalysisRequest.provider request,
                         timestamp = Date_now rt\<rparr>)"
  using assms
  by (auto simp add: analyzeBloodTest_staged split: option.splits sum.splits if_splits)

text \<open>
  C8, as stated, at an OpenAI reply whose message has no \<^verbatim>\<open>content\<close>: the adapter returns
  success, with an undefined text, and not a decode failure.
\<close>

theorem missing_last_field_is_success:
  "fst (analyzeBloodTest
     (sample_runtime None 200 ''json''
        (Inr (JObj [(''choices'', JArr [JObj [(''message'', JObj [(''role'', JStr ''assistant'')])]])])))
     \<lparr>imageBase64 = Some ''data:image/png;base64,AAAA'', contextText = None,
      provider = ''openai''\<rparr> (Some ''sk-1'')) =
   Success \<lparr>resultText = JUndefined, AnalysisResult.provider = ''openai'',
            timestamp = 1700000000000\<rparr>"
  by (simp add: analyzeBloodTest_staged built_request_def extracted_text_def sample_runtime_def
      reply_with_def ok_def prepareOpenAIRequest_built)

text \<open>
  C8, amended. After a reply with a success status and a JSON body, the adapter reads the
  provider's path (gemini: \<^verbatim>\<open>candidates[0].content.parts[0].text\<close>; openai:
  \<^verbatim>\<open>choices[0].message.content\<close>; claude: \<^verbatim>\<open>content[0].text\<close>). When every step can be
  read, the value found is returned as the text of a success, also when the last field is
  missing and the value is \<^verbatim>\<open>undefined\<close>. When a value on the way, before some step of the
  path, is \<^verbatim>\<open>undefined\<close> or \<^verbatim>\<open>null\<close>, the adapter returns a tagged failure that carries
  the TypeError of that read and throws nothing to its caller; this failure is never the
  \<^verbatim>\<open>API Error\<close> failure of a non-success status, nor any other error the handler raises
  itself.
\<close>

theorem reply_decoding:
  assumes "snd (analyzeBloodTest rt request userApiKey) = [cfg]"
    and "fetch rt cfg = Inr response" and "ok response" and "body_json response = Inr data"
    and "path =
          (if AnalysisRequest.provider request = ''gemini'' then
             [Prop ''candidates'', Index 0, Prop ''content'', Prop ''parts'', Index 0, Prop ''text'']
           else if AnalysisRequest.provider request = ''openai'' then
             [Prop ''choices'', Index 0, Prop ''message'', Prop ''content'']
           else [Prop ''content'', Index 0, Prop ''text''])"
  shows "(\<forall>txt. read_path data path = Inr txt \<longrightarrow>
            fst (analyzeBloodTest rt request userApiKey) =
              Success \<lparr>resultText = txt,
                       AnalysisResult.provider = AnalysisRequest.provider request,
                       timestamp = Date_now rt\<rparr>) \<and>
         (\<forall>pre st rest b.
            path = pre @ st # rest \<and> read_path data pre = Inr b \<and> (b = JUndefined \<or> b = JNull) \<longrightarrow>
            fst (analyzeBloodTest rt request userApiKey) =
              Failure (TypeError_read b (step_name st))) \<and>
         (\<forall>e. read_path data path = Inl e \<longrightarrow>
            fst (analyzeBloodTest rt request userApiKey) = Failure e \<and>
            (\<exists>b k. (b = JUndefined \<or> b = JNull) \<and> e = TypeError_read b k) \<and>
            (\<forall>m. e \<noteq> Error m))"
proof -
  have path: "extracted_text (AnalysisRequest.provider request) data = read_path data path"
    using sent_request_provider [OF assms(1)] assms(5) by (auto simp add: extracted_text_def)
  note result = decoded_reply [OF assms(1-4), unfolded path]
  have "fst (analyzeBloodTest rt request userApiKey) = Failure (TypeError_read b (step_name st))"
    if "path = pre @ st # rest" "read_path data pre = Inr b" "b = JUndefined \<or> b = JNull"
    for pre st rest b
  proof -
    have "read_path data path = Inl (TypeError_read b (step_name st))"
      using that read_step_absent [OF that(3), of st] by (simp add: read_path_append)
    with result show ?thesis by simp
  qed
  moreover have "fst (analyzeBloodTest rt request userApiKey) = Failure e \<and>
            (\<exists>b k. (b = JUndefined \<or> b = JNull) \<and> e = TypeError_read b k) \<and>
            (\<forall>m. e \<noteq> Error m)"
    if "read_path data path = Inl e" for e
    using that result read_path_throws [OF that] by auto
  ultimately show ?thesis
    using result by simp
qed

theorem reply_decoding_witness:
  "ok \<lparr>status = 200, body_text = ''json'',
       body_json = Inr (JObj [(''candidates'', JArr [JObj [(''content'', JObj [
          (''parts'', JArr [JObj [(''text'', JStr ''All values are within range.'')]]),
          (''role'', JStr ''model'')])]])])\<rparr> \<and>
   fst (analyzeBloodTest
     (sample_runtime (Some ''server-key'') 200 ''json''
        (Inr (JObj [(''candidates'', JArr [JObj [(''content'', JObj [
          (''parts'', JArr [JObj [(''text'', JStr ''All values are within range.'')]]),
          (''role'', JStr ''model'')])]])])))
     \<lparr>imageBase64 = Some ''data:image/png;base64,AAAA'', contextText = None,
      provider = ''gemini''\<rparr> None) =
   Success \<lparr>resultText = JStr ''All values are within range.'',
            AnalysisResult.provider = ''gemini'', timestamp = 1700000000000\<rparr>"
  using reply_decoding
    [where rt = "sample_runtime (Some ''server-key'') 200 ''json''
        (Inr (JObj [(''candidates'', JArr [JObj [(''content'', JObj [
          (''parts'', JArr [JObj [(''text'', JStr ''All values are within range.'')]]),
          (''role'', JStr ''model'')])]])]))"
       and request = "\<lparr>imageBase64 = Some ''data:image/png;base64,AAAA'', contextText = None,
                          provider = ''gemini''\<rparr>"
       and userApiKey = None
       and cfg = "projr (prepareGeminiRequest (Some ''server-key'') ''data:image/png;base64,AAAA''
                           None None)"
       and response = "\<lparr>status = 200, body_text = ''json'',
          body_json = Inr (JObj [(''candidates'', JArr [JObj [(''content'', JObj [
            (''parts'', JArr [JObj [(''text'', JStr ''All values are within range.'')]]),
            (''role'', JStr ''model'')])]])])\<rparr>"
       and data = "JObj [(''candidates'', JArr [JObj [(''content'', JObj [
            (''parts'', JArr [JObj [(''text'', JStr ''All values are within range.'')]]),
            (''role'', JStr ''model'')])]])]"
       and path = "[Prop ''candidates'', Index 0, Prop ''content'', Prop ''parts'', Index 0,
                    Prop ''text'']"]
  by (simp add: analyzeBloodTest_staged built_request_def extracted_text_def sample_runtime_def
      reply_with_def ok_def prepareGeminiRequest_built)

subsection \<open>One provider per invocation\<close>

lemma prepareGeminiRequest_sent:
  assumes "prepareGeminiRequest env_key img ctx userApiKey = Inr cfg"
  shows "\<exists>key. key \<noteq> [] \<and> (if truthy userApiKey then userApiKey else env_key) = Some key \<and>
           url cfg = ''https://generativelanguage.googleapis.com/v1beta/models/gemini-1.5-flash:generateContent''
                     @ ''?key='' @ key \<and>
           headers (options cfg) = [(''Content-Type'', ''application/json'')]"
proof (cases "if truthy userApiKey then userApiKey else env_key")
  case None
  with assms show ?thesis by (simp add: prepareGeminiRequest_def del: truthy.simps)
next
  case (Some key)
  show ?thesis
  proof (cases "key = []")
    case True
    with Some assms show ?thesis by (simp add: prepareGeminiRequest_def del: truthy.simps)
  next
    case False
    from prepareGeminiRequest_built [OF Some False, of img ctx] assms
    have "url cfg = ''https://generativelanguage.googleapis.com/v1beta/models/gemini-1.5-flash:generateContent''
                     @ ''?key='' @ key"
      and "headers (options cfg) = [(''Content-Type'', ''application/json'')]"
      by auto
    with Some False show ?thesis by blast
  qed
qed

lemma prepareOpenAIRequest_sent:
  assumes "prepareOpenAIRequest img ctx userApiKey = Inr cfg"
  shows "\<exists>key. key \<noteq> [] \<and> userApiKey = Some key \<and>
           url cfg = ''https://api.openai.com/v1/chat/completions'' \<and>
           headers (options cfg) = [(''Content-Type'', ''application/json''),
                                    (''Authorization'', ''Bearer '' @ key)]"
proof (cases userApiKey)
  case None
  with assms show ?thesis by (simp add: prepareOpenAIRequest_def)
next
  case (Some key)
  show ?thesis
  proof (cases "key = []")
    case True
    with Some assms show ?thesis by (simp add: prepareOpenAIRequest_def)
  next
    case False
    from prepareOpenAIRequest_built [OF False, of img ctx] assms Some
    have "url cfg = ''https://api.openai.com/v1/chat/completions''"
      and "headers (options cfg) = [(''Content-Type'', ''application/json''),
                                    (''Authorization'', ''Bearer '' @ key)]"
      by auto
    with Some False show ?thesis by blast
  qed
qed

lemma prepareClaudeRequest_sent:
  assumes "prepareClaudeRequest img ctx userApiKey = Inr cfg"
  shows "\<exists>key. key \<noteq> [] \<and> userApiKey = Some key \<and>
           url cfg = ''https://api.anthropic.com/v1/messages'' \<and>
           headers (options cfg) = [(''Content-Type'', ''application/json''),
                                    (''x-api-key'', key),
                                    (''anthropic-version'', ''2023-06-01'')]"
proof (cases userApiKey)
  case None
  with assms show ?thesis by (simp add: prepareClaudeRequest_def)
next
  case (Some key)
  show ?thesis
  proof (cases "key = []")
    case True
    with Some assms show ?thesis by (simp add: prepareClaudeRequest_def)
  next
    case False
    from prepareClaudeRequest_built [OF False, of img ctx] assms Some
    have "url cfg = ''https://api.anthropic.com/v1/messages''"
      and "headers (options cfg) = [(''Content-Type'', ''application/json''),
                                    (''x-api-key'', key),
                                    (''anthropic-version'', ''2023-06-01'')]"
      by auto
    with Some False show ?thesis by blast
  qed
qed

lemma success_stages:
  assumes "analyzeBloodTest rt request userApiKey = (Success result, calls)"
  shows "\<exists>img cfg response data.
           imageBase64 request = Some img \<and> img \<noteq> [] \<and>
           built_request rt request userApiKey img = Inr cfg \<and> calls = [cfg] \<and>
           fetch rt cfg = Inr response \<and> ok response \<and> body_json response = Inr data \<and>
           extracted_text (AnalysisRequest.provider request) data = Inr (resultText result) \<and>
           AnalysisResult.provider result = AnalysisRequest.provider request \<and>
           timestamp result = Date_now rt"
  using assms
  by (auto simp add: analyzeBloodTest_staged split: option.splits sum.splits if_splits)

text \<open>
  C9. In a successful invocation one provider is used from end to end. The provider of the
  result is the provider of the request. Exactly one request was sent, and it is the one the
  builder of that provider returns: its URL is that provider's endpoint (for Gemini with the
  credential as the \<^verbatim>\<open>key\<close> parameter), its headers carry the credential where that
  provider expects it, and the text of the result was read along that provider's path. The
  credential is the key of the caller, or for Gemini alone the server's default: the route
  reads only the key header of the request's provider, and for the two other providers the
  server's Gemini key changes nothing.
\<close>

theorem single_provider_end_to_end:
  "(analyzeBloodTest rt request userApiKey = (Success result, calls) \<longrightarrow>
      AnalysisResult.provider result = AnalysisRequest.provider request \<and>
      (\<exists>img cfg response data key.
         imageBase64 request = Some img \<and> calls = [cfg] \<and> key \<noteq> [] \<and>
         fetch rt cfg = Inr response \<and> body_json response = Inr data \<and>
         (AnalysisRequest.provider request = ''gemini'' \<and>
            prepareGeminiRequest (GOOGLE_GEMINI_API_KEY rt) img (contextText request) userApiKey
              = Inr cfg \<and>
            (if truthy userApiKey then userApiKey else GOOGLE_GEMINI_API_KEY rt) = Some key \<and>
            url cfg = ''https://generativelanguage.googleapis.com/v1beta/models/gemini-1.5-flash:generateContent''
                      @ ''?key='' @ key \<and>
            headers (options cfg) = [(''Content-Type'', ''application/json'')] \<and>
            read_path data [Prop ''candidates'', Index 0, Prop ''content'', Prop ''parts'',
                            Index 0, Prop ''text''] = Inr (resultText result)
          \<or>
          AnalysisRequest.provider request = ''openai'' \<and>
            prepareOpenAIRequest img (contextText request) userApiKey = Inr cfg \<and>
            userApiKey = Some key \<and>
            url cfg = ''https://api.openai.com/v1/chat/completions'' \<and>
            headers (options cfg) = [(''Content-Type'', ''application/json''),
                                     (''Authorization'', ''Bearer '' @ key)] \<and>
            read_path data [Prop ''choices'', Index 0, Prop ''message'', Prop ''content'']
              = Inr (resultText result)
          \<or>
          AnalysisRequest.provider request = ''claude'' \<and>
            prepareClaudeRequest img (contextText request) userApiKey = Inr cfg \<and>
            userApiKey = Some key \<and>
            url cfg = ''https://api.anthropic.com/v1/messages'' \<and>
            headers (options cfg) = [(''Content-Type'', ''application/json''),
                                     (''x-api-key'', key),
                                     (''anthropic-version'', ''2023-06-01'')] \<and>
            read_path data [Prop ''content'', Index 0, Prop ''text''] = Inr (resultText result)))) \<and>
   (h (if AnalysisRequest.provider request = ''gemini'' then ''x-gemini-key''
       else if AnalysisRequest.provider request = ''openai'' then ''x-openai-key''
       else ''x-claude-key'') =
    h' (if AnalysisRequest.provider request = ''gemini'' then ''x-gemini-key''
        else if AnalysisRequest.provider request = ''openai'' then ''x-openai-key''
        else ''x-claude-key'') \<longrightarrow>
      POST rt \<lparr>request_json = Inr request, headers_get = h\<rparr> =
      POST rt \<lparr>request_json = Inr request, headers_get = h'\<rparr>) \<and>
   (AnalysisRequest.provider request \<noteq> ''gemini'' \<longrightarrow>
      analyzeBloodTest (rt\<lparr>GOOGLE_GEMINI_API_KEY := other_key\<rparr>) request userApiKey =
      analyzeBloodTest rt request userApiKey)"
proof (intro conjI impI, goal_cases)
  case 1
  from success_stages [OF 1] show ?case by blast
next
  case 2
  from success_stages [OF 2] obtain img cfg response data where s:
    "imageBase64 request = Some img" "built_request rt request userApiKey img = Inr cfg"
    "calls = [cfg]" "fetch rt cfg = Inr response" "body_json response = Inr data"
    "extracted_text (AnalysisRequest.provider request) data = Inr (resultText result)"
    by blast
  consider (gemini) "AnalysisRequest.provider request = ''gemini''"
    | (openai) "AnalysisRequest.provider request = ''openai''"
    | (claude) "AnalysisRequest.provider request = ''claude''"
    using s(2) by (auto simp add: built_request_def split: if_splits)
  then show ?case
  proof cases
    case gemini
    with s(2) have b: "prepareGeminiRequest (GOOGLE_GEMINI_API_KEY rt) img (contextText request)
                         userApiKey = Inr cfg"
      by (simp add: built_request_def)
    from gemini s(6) have "read_path data [Prop ''candidates'', Index 0, Prop ''content'',
        Prop ''parts'', Index 0, Prop ''text''] = Inr (resultText result)"
      by (simp add: extracted_text_def)
    with prepareGeminiRequest_sent [OF b] b gemini s(1,3,4,5) show ?thesis by blast
  next
    case openai
    with s(2) have b: "prepareOpenAIRequest img (contextText request) userApiKey = Inr cfg"
      by (simp add: built_request_def)
    from openai s(6) have "read_path data [Prop ''choices'', Index 0, Prop ''message'',
        Prop ''content''] = Inr (resultText result)"
      by (simp add: extracted_text_def)
    with prepareOpenAIRequest_sent [OF b] b openai s(1,3,4,5) show ?thesis by blast
  next
    case claude
    with s(2) have b: "prepareClaudeRequest img (contextText request) userApiKey = Inr cfg"
      by (simp add: built_request_def)
    from claude s(6) have "read_path data [Prop ''content'', Index 0, Prop ''text'']
        = Inr (resultText result)"
      by (simp add: extracted_text_def)
    with prepareClaudeRequest_sent [OF b] b claude s(1,3,4,5) show ?thesis by blast
  qed
next
  case 3
  then show ?case
    by (cases "AnalysisRequest.provider request = ''gemini''";
        cases "AnalysisRequest.provider request = ''openai''")
      (simp_all add: POST_def del: truthy.simps)
next
  case 4
  then have "built_request (rt\<lparr>GOOGLE_GEMINI_API_KEY := other_key\<rparr>) request userApiKey img
               = built_request rt request userApiKey img" for img
    by (simp add: built_request_def)
  then show ?case
    by (simp add: analyzeBloodTest_staged cong: option.case_cong sum.case_cong if_cong)
qed

theorem single_provider_end_to_end_witness:
  "analyzeBloodTest
     (sample_runtime (Some ''server-key'') 200 ''json''
        (Inr (JObj [(''content'', JArr [JObj [(''type'', JStr ''text''),
                                              (''text'', JStr ''Hemoglobin is low.'')]])])))
     \<lparr>imageBase64 = Some ''data:image/png;base64,AAAA'', contextText = None,
      provider = ''claude''\<rparr> (Some ''sk-ant'') =
     (Success \<lparr>resultText = JStr ''Hemoglobin is low.'', AnalysisResult.provider = ''claude'',
               timestamp = 1700000000000\<rparr>,
      [projr (prepareClaudeRequest ''data:image/png;base64,AAAA'' None (Some ''sk-ant''))]) \<and>
   url (projr (prepareClaudeRequest ''data:image/png;base64,AAAA'' None (Some ''sk-ant''))) =
     ''https://api.anthropic.com/v1/messages'' \<and>
   POST (sample_runtime (Some ''server-key'') 200 ''json''
        (Inr (JObj [(''content'', JArr [JObj [(''type'', JStr ''text''),
                                              (''text'', JStr ''Hemoglobin is low.'')]])])))
     \<lparr>request_json = Inr \<lparr>imageBase64 = Some ''data:image/png;base64,AAAA'',
                            contextText = None, provider = ''claude''\<rparr>,
      headers_get = [''x-claude-key'' \<mapsto> ''sk-ant'', ''x-openai-key'' \<mapsto> ''sk-other'']\<rparr> =
   POST (sample_runtime (Some ''server-key'') 200 ''json''
        (Inr (JObj [(''content'', JArr [JObj [(''type'', JStr ''text''),
                                              (''text'', JStr ''Hemoglobin is low.'')]])])))
     \<lparr>request_json = Inr \<lparr>imageBase64 = Some ''data:image/png;base64,AAAA'',
                            contextText = None, provider = ''claude''\<rparr>,
      headers_get = [''x-claude-key'' \<mapsto> ''sk-ant'']\<rparr>"
  using single_provider_end_to_end
    [where rt = "sample_runtime (Some ''server-key'') 200 ''json''
        (Inr (JObj [(''content'', JArr [JObj [(''type'', JStr ''text''),
                                              (''text'', JStr ''Hemoglobin is low.'')]])]))"
       and request = "\<lparr>imageBase64 = Some ''data:image/png;base64,AAAA'', contextText = None,
                          provider = ''claude''\<rparr>"
       and userApiKey = "Some ''sk-ant''"
       and result = "\<lparr>resultText = JStr ''Hemoglobin is low.'',
                         AnalysisResult.provider = ''claude'', timestamp = 1700000000000\<rparr>"
       and calls = "[projr (prepareClaudeRequest ''data:image/png;base64,AAAA'' None
                              (Some ''sk-ant''))]"
       and h = "[''x-claude-key'' \<mapsto> ''sk-ant'', ''x-openai-key'' \<mapsto> ''sk-other'']"
       and h' = "[''x-claude-key'' \<mapsto> ''sk-ant'']"
       and other_key = None]
  by (simp add: analyzeBloodTest_staged built_request_def extracted_text_def sample_runtime_def
      reply_with_def ok_def prepareClaudeRequest_built)

subsection \<open>Images that are not data URIs\<close>

text \<open>
  C10, as stated, at the image \<^verbatim>\<open>https://example.com/scan.png\<close>, which is not empty,
  contains no comma and has no data-URI prefix: the media type the Claude builder puts into
  the body is the text after the first colon, not \<^verbatim>\<open>undefined\<close>.
\<close>

theorem comma_free_image_with_media_type:
  "''https://example.com/scan.png'' \<noteq> [] \<and> CHR '','' \<notin> set ''https://example.com/scan.png'' \<and>
   body_at (prepareClaudeRequest ''https://example.com/scan.png'' None (Some ''sk-ant''))
     [Prop ''messages'', Index 0, Prop ''content'', Index 1, Prop ''source'', Prop ''media_type''] =
     Inr (JStr ''//example.com/scan.png'') \<and>
   body_at (prepareClaudeRequest ''https://example.com/scan.png'' None (Some ''sk-ant''))
     [Prop ''messages'', Index 0, Prop ''content'', Index 1, Prop ''source'', Prop ''media_type''] \<noteq>
     Inr JUndefined"
  by (simp add: prepareClaudeRequest_built body_at_def)

lemma prepareGeminiRequest_failure:
  assumes "prepareGeminiRequest env_key img ctx userApiKey = Inl e"
  shows "e = Error ''No Gemini API key provided''"
proof (cases "if truthy userApiKey then userApiKey else env_key")
  case None
  with assms show ?thesis by (simp add: prepareGeminiRequest_def del: truthy.simps)
next
  case (Some key)
  show ?thesis
  proof (cases "key = []")
    case True
    with Some assms show ?thesis by (simp add: prepareGeminiRequest_def del: truthy.simps)
  next
    case False
    from prepareGeminiRequest_built [OF Some False, of img ctx] assms show ?thesis by simp
  qed
qed

lemma prepareOpenAIRequest_failure:
  assumes "prepareOpenAIRequest img ctx userApiKey = Inl e"
  shows "e = Error ''No OpenAI API key provided''"
proof (cases userApiKey)
  case None
  with assms show ?thesis by (simp add: prepareOpenAIRequest_def)
next
  case (Some key)
  show ?thesis
  proof (cases "key = []")
    case True
    with Some assms show ?thesis by (simp add: prepareOpenAIRequest_def)
  next
    case False
    from prepareOpenAIRequest_built [OF False, of img ctx] assms Some show ?thesis by simp
  qed
qed

lemma prepareClaudeRequest_failure:
  assumes "prepareClaudeRequest img ctx userApiKey = Inl e"
  shows "e = Error ''No Claude API key provided''"
proof (cases userApiKey)
  case None
  with assms show ?thesis by (simp add: prepareClaudeRequest_def)
next
  case (Some key)
  show ?thesis
  proof (cases "key = []")
    case True
    with Some assms show ?thesis by (simp add: prepareClaudeRequest_def)
  next
    case False
    from prepareClaudeRequest_built [OF False, of img ctx] assms Some show ?thesis by simp
  qed
qed

lemma built_request_failure:
  assumes "built_request rt request userApiKey img = Inl e"
  shows "e \<in> {Error ''No Gemini API key provided'', Error ''No OpenAI API key provided'',
              Error ''No Claude API key provided'',
              Error (''Unsupported provider: '' @ AnalysisRequest.provider request)}"
  using assms prepareGeminiRequest_failure prepareOpenAIRequest_failure
    prepareClaudeRequest_failure
  by (auto simp add: built_request_def split: if_splits)

text \<open>
  C10, amended. For every request whose image is a non-empty string without a comma, the
  validation of the image succeeds and the shape of the image signals no error: only
  emptiness is checked. Before the network call the adapter can then fail only for a missing
  credential or an unsupported provider, and with one of the three providers and a
  credential the request is built and sent. The Gemini and Claude builders leave \<^verbatim>\<open>data\<close>
  undefined, so that the serialised body has no \<^verbatim>\<open>data\<close> member. For Claude the media type
  is undefined as well, and absent from the body, when the text before the first semicolon
  contains no colon; otherwise it is the text after the first colon, up to the next colon or
  that semicolon.
\<close>

theorem comma_free_image_is_sent:
  assumes "img \<noteq> []" and "CHR '','' \<notin> set img" and "key \<noteq> []"
    and "before_semicolon = takeWhile (\<lambda>x. x \<noteq> CHR '';'') img"
  shows
    "((if truthy userApiKey then userApiKey else env_key) = Some key \<longrightarrow>
        body_at (prepareGeminiRequest env_key img ctx userApiKey)
          [Prop ''contents'', Index 0, Prop ''parts'', Index 1, Prop ''inline_data''] =
          Inr (JObj [(''mime_type'', JStr ''image/jpeg'')])) \<and>
     (CHR '':'' \<notin> set before_semicolon \<longrightarrow>
        body_at (prepareClaudeRequest img ctx (Some key))
          [Prop ''messages'', Index 0, Prop ''content'', Index 1, Prop ''source''] =
          Inr (JObj [(''type'', JStr ''base64'')])) \<and>
     (CHR '':'' \<in> set before_semicolon \<longrightarrow>
        body_at (prepareClaudeRequest img ctx (Some key))
          [Prop ''messages'', Index 0, Prop ''content'', Index 1, Prop ''source''] =
          Inr (JObj [(''type'', JStr ''base64''),
                     (''media_type'',
                      JStr (takeWhile (\<lambda>x. x \<noteq> CHR '':'')
                              (tl (dropWhile (\<lambda>x. x \<noteq> CHR '':'') before_semicolon))))])) \<and>
     (imageBase64 request = Some img \<longrightarrow>
        (\<forall>e. built_request rt request userApiKey img = Inl e \<longrightarrow>
           analyzeBloodTest rt request userApiKey = (Failure e, []) \<and>
           e \<in> {Error ''No Gemini API key provided'', Error ''No OpenAI API key provided'',
                Error ''No Claude API key provided'',
                Error (''Unsupported provider: '' @ AnalysisRequest.provider request)}) \<and>
        (\<forall>cfg. built_request rt request userApiKey img = Inr cfg \<longrightarrow>
           snd (analyzeBloodTest rt request userApiKey) = [cfg]) \<and>
        (AnalysisRequest.provider request = ''gemini'' \<and>
           (if truthy userApiKey then userApiKey else GOOGLE_GEMINI_API_KEY rt) = Some key \<or>
         (AnalysisRequest.provider request = ''openai'' \<or>
          AnalysisRequest.provider request = ''claude'') \<and> userApiKey = Some key \<longrightarrow>
           (\<exists>cfg. built_request rt request userApiKey img = Inr cfg \<and>
                  snd (analyzeBloodTest rt request userApiKey) = [cfg])))"
proof (intro conjI impI allI, goal_cases)
  case 1
  then show ?case
    using assms(3) js_split_second_absent [OF assms(2)]
    by (simp add: prepareGeminiRequest_built body_at_def del: truthy.simps)
next
  case 2
  then have "element_at (js_split CHR '':'' (takeWhile (\<lambda>x. x \<noteq> CHR '';'') img)) 1 = None"
    unfolding assms(4) by (rule js_split_second_absent)
  then show ?case
    using assms(3) js_split_second_absent [OF assms(2)]
    by (simp add: prepareClaudeRequest_built body_at_def)
next
  case 3
  then have "element_at (js_split CHR '':'' (takeWhile (\<lambda>x. x \<noteq> CHR '';'') img)) 1 =
      Some (takeWhile (\<lambda>x. x \<noteq> CHR '':'')
              (tl (dropWhile (\<lambda>x. x \<noteq> CHR '':'') before_semicolon)))"
    unfolding assms(4) by (rule js_split_second_present)
  then show ?case
    using assms(3) js_split_second_absent [OF assms(2)]
    by (simp add: prepareClaudeRequest_built body_at_def)
next
  case (4 e)
  with assms(1) show ?case
    by (simp add: analyzeBloodTest_staged)
next
  case (5 e)
  from built_request_failure [OF 5(2)] show ?case .
next
  case (6 cfg)
  with assms(1) show ?case
    by (auto simp add: analyzeBloodTest_staged split: sum.splits)
next
  case 7
  then have "\<exists>cfg. built_request rt request userApiKey img = Inr cfg"
    using assms(3) prepareGeminiRequest_built [of userApiKey "GOOGLE_GEMINI_API_KEY rt" key]
      prepareOpenAIRequest_built [of key] prepareClaudeRequest_built [of key]
    by (auto simp add: built_request_def simp del: truthy.simps)
  then obtain cfg where "built_request rt request userApiKey img = Inr cfg" ..
  with 7 assms(1) show ?case
    by (auto simp add: analyzeBloodTest_staged split: sum.splits)
qed

theorem comma_free_image_is_sent_witness:
  "''AAAA'' \<noteq> [] \<and> CHR '','' \<notin> set ''AAAA'' \<and> ''sk-ant'' \<noteq> [] \<and>
   body_at (prepareGeminiRequest None ''AAAA'' None (Some ''sk-ant''))
     [Prop ''contents'', Index 0, Prop ''parts'', Index 1, Prop ''inline_data''] =
     Inr (JObj [(''mime_type'', JStr ''image/jpeg'')]) \<and>
   body_at (prepareClaudeRequest ''AAAA'' None (Some ''sk-ant''))
     [Prop ''messages'', Index 0, Prop ''content'', Index 1, Prop ''source''] =
     Inr (JObj [(''type'', JStr ''base64'')]) \<and>
   snd (analyzeBloodTest (sample_runtime None 400 ''bad image'' (Inr JNull))
     \<lparr>imageBase64 = Some ''AAAA'', contextText = None, provider = ''openai''\<rparr>
     (Some ''sk-ant'')) =
     [projr (prepareOpenAIRequest ''AAAA'' None (Some ''sk-ant''))] \<and>
   analyzeBloodTest (sample_runtime None 400 ''bad image'' (Inr JNull))
     \<lparr>imageBase64 = Some ''AAAA'', contextText = None, provider = ''openai''\<rparr> None =
     (Failure (Error ''No OpenAI API key provided''), [])"
  using comma_free_image_is_sent
    [where img = "''AAAA''" and key = "''sk-ant''" and before_semicolon = "''AAAA''"
       and userApiKey = "Some ''sk-ant''" and env_key = None and ctx = None
       and rt = "sample_runtime None 400 ''bad image'' (Inr JNull)"
       and request = "\<lparr>imageBase64 = Some ''AAAA'', contextText = None, provider = ''openai''\<rparr>"]
    comma_free_image_is_sent
    [where img = "''AAAA''" and key = "''sk-ant''" and before_semicolon = "''AAAA''"
       and userApiKey = None and env_key = "Some ''sk-ant''" and ctx = None
       and rt = "sample_runtime None 400 ''bad image'' (Inr JNull)"
       and request = "\<lparr>imageBase64 = Some ''AAAA'', contextText = None, provider = ''openai''\<rparr>"]
  by (simp add: built_request_def prepareOpenAIRequest_built prepareOpenAIRequest_def)

end
